theory Spec2Isabelle
  imports Main "HOL-Library.Word" "HOL-Library.Signed_Division"
begin

unbundle bit_operations_syntax

section \<open>The mapped region of boost/interprocess/mapped_region.hpp\<close>

text \<open>
  The header has two implementations of \<open>mapped_region\<close>, chosen by the
  preprocessor: one over the POSIX calls \<open>lseek\<close>, \<open>mmap\<close>, \<open>msync\<close> and
  \<open>munmap\<close>, one over the Win32 calls. Both are embedded here, the POSIX one with the
  prefix \<open>posix_\<close> and the Win32 one with the prefix \<open>win_\<close>.

  The operating system is not part of the header. Every call the code makes to it is
  recorded, with the value the system returned, in a trace; the returned values come
  from an oracle that may look at everything that happened before. A theorem that
  holds for every oracle holds whatever the system does.
\<close>

subsection \<open>Errors\<close>

text \<open>
  \<open>throw interprocess_exception(error_info(c))\<close> is the value \<open>Inl c\<close>. The codes
  \<open>mode_error\<close> and \<open>size_error\<close> are named in the header (the latter is
  \<open>size_error_code\<close> here, since the datatype's size function takes the name
  \<open>size_error\<close>); \<open>system_error n\<close> is an
  \<open>error_info\<close> built from \<open>system_error_code()\<close> or \<open>winapi::get_last_error()\<close>.
  \<open>division_by_zero\<close> is not an exception: it stands for the integer division by a
  page size of zero, which C++ leaves undefined and HOL would silently evaluate to 0.
\<close>

datatype error = mode_error | size_error_code | system_error int | division_by_zero

text \<open>
  The enumeration \<open>mode_t\<close> is declared in another header of the library. The
  switch statements name three of its enumerators; \<open>invalid_mode\<close> stands for every
  other value, which the switches send to their \<open>default\<close> branch.
\<close>

datatype mode_t = read_only | read_write | copy_on_write | invalid_mode

section \<open>The POSIX implementation\<close>

text \<open>
  Integer types of an LP64 system: \<open>std::size_t\<close> is an unsigned 64-bit word,
  \<open>offset_t\<close> (\<open>off_t\<close>) a signed one, read with \<open>sint\<close> and compared with
  \<open>\<le>s\<close> and \<open><s\<close>; \<open>void *\<close> is a 64-bit address. Mixed arithmetic between \<open>offset_t\<close>
  and \<open>std::size_t\<close> is unsigned by the usual arithmetic conversions, so it is plain
  word arithmetic.
\<close>

type_synonym size_t = "64 word"
type_synonym offset_t = "64 word"
type_synonym ptr = "64 word"

text \<open>
  Constants of \<open><sys/mman.h>\<close>: \<open>MAP_FAILED\<close> is \<open>(void *) -1\<close>; the
  protection and sharing flags have their Linux values.
\<close>

definition MAP_FAILED :: ptr where
  "MAP_FAILED = - 1"

definition PROT_READ :: "32 word" where "PROT_READ = 1"
definition PROT_WRITE :: "32 word" where "PROT_WRITE = 2"
definition MAP_SHARED :: "32 word" where "MAP_SHARED = 1"
definition MAP_PRIVATE :: "32 word" where "MAP_PRIVATE = 2"

subsection \<open>System calls and their trace\<close>

datatype posix_call =
    Lseek_end int offset_t
  | Mmap ptr size_t "32 word" "32 word" int offset_t
  | Msync ptr size_t
  | Munmap ptr size_t

type_synonym posix_event = "posix_call \<times> 64 word"

text \<open>
  \<open>sys_ret os tr c\<close> is what call \<open>c\<close> returns after the history \<open>tr\<close>
  (\<open>int\<close> results are sign-extended, so \<open>-1\<close> is the word of all ones);
  \<open>sys_errno os tr\<close> is \<open>errno\<close> at that point; \<open>sc_pagesize\<close> is
  \<open>sysconf(_SC_PAGESIZE)\<close>, which \<open>page_size_holder\<close> reads once.
\<close>

record posix_os =
  sys_ret :: "posix_event list \<Rightarrow> posix_call \<Rightarrow> 64 word"
  sys_errno :: "posix_event list \<Rightarrow> int"
  sc_pagesize :: "64 word"

definition posix_sys :: "posix_os \<Rightarrow> posix_call \<Rightarrow> posix_event list \<Rightarrow> 64 word \<times> posix_event list" where
  "posix_sys os c tr = (sys_ret os tr c, tr @ [(c, sys_ret os tr c)])"

definition system_error_code :: "posix_os \<Rightarrow> posix_event list \<Rightarrow> error" where
  "system_error_code os tr = system_error (sys_errno os tr)"

definition posix_get_page_size :: "posix_os \<Rightarrow> size_t" where
  "posix_get_page_size os = sc_pagesize os"

subsection \<open>The object\<close>

text \<open>
  The members of the class. The address width \<open>'a\<close> is the only difference between
  the two implementations' first four members; the Win32 class has a fifth.
\<close>

record 'a mapped_region =
  m_base :: "'a"
  m_size :: "'a"
  m_offset :: "64 word"
  m_extra_offset :: "64 word"

type_synonym posix_region = "64 word mapped_region"

definition posix_default :: posix_region where
  "posix_default = \<lparr>m_base = MAP_FAILED, m_size = 0, m_offset = 0, m_extra_offset = 0\<rparr>"

definition posix_get_size :: "posix_region \<Rightarrow> size_t" where
  "posix_get_size this = m_size this"

definition posix_get_offset :: "posix_region \<Rightarrow> offset_t" where
  "posix_get_offset this = m_offset this"

definition posix_get_address :: "posix_region \<Rightarrow> ptr" where
  "posix_get_address this = m_base this"

text \<open>\<open>flush\<close> returns its boolean and the trace; it does not change the object.\<close>

definition posix_flush ::
  "posix_os \<Rightarrow> posix_region \<Rightarrow> size_t \<Rightarrow> size_t \<Rightarrow> posix_event list \<Rightarrow> bool \<times> posix_event list" where
  "posix_flush os this mapping_offset numbytes tr =
     (if m_size this \<le> mapping_offset \<or> m_size this < mapping_offset + numbytes
      then (False, tr)
      else
        let numbytes' = (if numbytes = 0 then m_size this - mapping_offset else numbytes);
            (r, tr') = posix_sys os (Msync (m_base this + mapping_offset) numbytes') tr
        in (r = 0, tr'))"

definition posix_priv_close ::
  "posix_os \<Rightarrow> posix_region \<Rightarrow> posix_event list \<Rightarrow> posix_region \<times> posix_event list" where
  "posix_priv_close os this tr =
     (if m_base this \<noteq> MAP_FAILED
      then
        let (flushed, tr1) = posix_flush os this 0 0 tr;
            (r, tr2) = posix_sys os
               (Munmap (m_base this - m_extra_offset this) (m_size this + m_extra_offset this)) tr1
        in (this\<lparr>m_base := MAP_FAILED\<rparr>, tr2)
      else (this, tr))"

text \<open>The destructor is \<open>priv_close\<close>.\<close>

definition posix_destroy ::
  "posix_os \<Rightarrow> posix_region \<Rightarrow> posix_event list \<Rightarrow> posix_region \<times> posix_event list" where
  "posix_destroy os this tr = posix_priv_close os this tr"

text \<open>
  The first block of the constructor: with \<open>size == 0\<close> the size comes from
  \<open>lseek(fd, offset, SEEK_END)\<close>. The cast \<open>(size_t)filesize\<close> and the cast back
  keep all 64 bits, so the last test of the block compares a word with itself.
\<close>

definition posix_resolve_size ::
  "posix_os \<Rightarrow> int \<Rightarrow> offset_t \<Rightarrow> size_t \<Rightarrow> posix_event list \<Rightarrow> (error + size_t) \<times> posix_event list" where
  "posix_resolve_size os fd offset sz tr =
     (if sz = 0
      then
        let (filesize, tr1) = posix_sys os (Lseek_end fd offset) tr
        in if filesize = - 1 then (Inl (system_error_code os tr1), tr1)
           else if filesize \<le>s offset then (Inl size_error_code, tr1)
           else
             let filesize' = filesize - offset;
                 sz' = (ucast filesize' :: size_t)
             in if (ucast sz' :: offset_t) \<noteq> filesize' then (Inl size_error_code, tr1)
                else (Inr sz', tr1)
      else (Inr sz, tr))"

text \<open>The switch on the mode: protection and flags, or the \<open>default\<close> branch.\<close>

definition posix_prot_flags :: "mode_t \<Rightarrow> (32 word \<times> 32 word) option" where
  "posix_prot_flags mode =
     (case mode of
        read_only \<Rightarrow> Some (0 OR PROT_READ, 0 OR MAP_SHARED)
      | read_write \<Rightarrow> Some (0 OR (PROT_WRITE OR PROT_READ), 0 OR MAP_SHARED)
      | copy_on_write \<Rightarrow> Some (0 OR PROT_READ, 0 OR MAP_PRIVATE)
      | invalid_mode \<Rightarrow> None)"

text \<open>
  The constructor. \<open>fd\<close> is \<open>mapping.get_mapping_handle()\<close> and \<open>sz\<close> the
  parameter \<open>size\<close>. The result is the
  outcome (\<open>Inl\<close> the exception thrown), the members of \<open>*this\<close> when the
  constructor returns or throws, and the trace.
\<close>

definition posix_construct ::
  "posix_os \<Rightarrow> int \<Rightarrow> mode_t \<Rightarrow> offset_t \<Rightarrow> size_t \<Rightarrow> ptr \<Rightarrow> posix_event list
     \<Rightarrow> (error + unit) \<times> posix_region \<times> posix_event list" where
  "posix_construct os fd mode offset sz address tr =
     (let this = posix_default in
      case posix_resolve_size os fd offset sz tr of
        (Inl e, tr1) \<Rightarrow> (Inl e, this, tr1)
      | (Inr sz', tr1) \<Rightarrow>
        (case posix_prot_flags mode of
           None \<Rightarrow> (Inl mode_error, this, tr1)
         | Some (prot, flags) \<Rightarrow>
           let page_size = posix_get_page_size os in
           if page_size = 0 then (Inl division_by_zero, this, tr1)
           else
             let extra = offset - (offset div page_size) * page_size;
                 this1 = this\<lparr>m_extra_offset := extra, m_offset := offset, m_size := sz'\<rparr>;
                 address' = (if address \<noteq> 0 then address - extra else address);
                 (raw, tr2) = posix_sys os
                    (Mmap address' (extra + sz') prot flags fd (offset - extra)) tr1;
                 this2 = this1\<lparr>m_base := raw\<rparr>
             in if raw = MAP_FAILED
                then
                  let err = system_error_code os tr2;
                      (this3, tr3) = posix_priv_close os this2 tr2
                  in (Inl err, this3, tr3)
                else
                  let old_base = raw;
                      this3 = this2\<lparr>m_base := raw + extra, m_offset := offset, m_size := sz'\<rparr>
                  in if address' \<noteq> 0 \<and> old_base \<noteq> address'
                     then
                       let err = system_error_code os tr2;
                           (this4, tr4) = posix_priv_close os this3 tr2
                       in (Inl err, this4, tr4)
                     else (Inr (), this3, tr2)))"

text \<open>
  \<open>swap\<close> exchanges the four members. Move assignment is \<open>this->swap(other)\<close>; the
  move constructor initialises \<open>*this\<close> as the default constructor does and swaps.
  Both return the pair (\<open>*this\<close>, \<open>other\<close>) after the call.
\<close>

definition posix_swap :: "posix_region \<Rightarrow> posix_region \<Rightarrow> posix_region \<times> posix_region" where
  "posix_swap this other =
     (this\<lparr>m_base := m_base other, m_size := m_size other,
           m_offset := m_offset other, m_extra_offset := m_extra_offset other\<rparr>,
      other\<lparr>m_base := m_base this, m_size := m_size this,
            m_offset := m_offset this, m_extra_offset := m_extra_offset this\<rparr>)"

definition posix_move_assign :: "posix_region \<Rightarrow> posix_region \<Rightarrow> posix_region \<times> posix_region" where
  "posix_move_assign this other = posix_swap this other"

definition posix_move_construct :: "posix_region \<Rightarrow> posix_region \<times> posix_region" where
  "posix_move_construct other = posix_swap posix_default other"

subsection \<open>A system with one file\<close>

text \<open>
  An oracle for concrete runs: one object of \<open>len\<close> bytes behind every descriptor.
  \<open>lseek(fd, off, SEEK_END)\<close> returns the size of the file plus \<open>off\<close>, as POSIX
  specifies, or \<open>-1\<close> when that position is negative or not representable;
  \<open>mmap\<close> places every mapping at \<open>raw\<close>; \<open>msync\<close> and \<open>munmap\<close> succeed.
\<close>

definition posix_lseek_end :: "64 word \<Rightarrow> offset_t \<Rightarrow> offset_t" where
  "posix_lseek_end len off =
     (if sint len + sint off < 0 \<or> 2 ^ 63 \<le> sint len + sint off then - 1 else len + off)"

definition file_os :: "64 word \<Rightarrow> ptr \<Rightarrow> posix_os" where
  "file_os len raw =
     \<lparr>sys_ret = (\<lambda>tr c. case c of
          Lseek_end fd off \<Rightarrow> posix_lseek_end len off
        | Mmap a l p f fd off \<Rightarrow> raw
        | Msync a l \<Rightarrow> 0
        | Munmap a l \<Rightarrow> 0),
      sys_errno = (\<lambda>tr. 0),
      sc_pagesize = 4096\<rparr>"

section \<open>The Win32 implementation\<close>

text \<open>
  Integer types of a 32-bit Windows system, the one \<open>win32_api.hpp\<close> is written for:
  \<open>std::size_t\<close>, \<open>unsigned long\<close>, addresses and handles are 32-bit words;
  \<open>offset_t\<close> is \<open>__int64\<close>, a signed 64-bit word. In arithmetic that mixes
  \<open>__int64\<close> with an unsigned 32-bit operand the latter is zero-extended (\<open>ucast\<close>)
  and the operation is the signed 64-bit one; a cast to \<open>std::size_t\<close> or
  \<open>unsigned long\<close>, and pointer arithmetic with an \<open>__int64\<close>, keep the low 32
  bits (\<open>ucast\<close> again).
\<close>

type_synonym win_size_t = "32 word"
type_synonym win_ptr = "32 word"
type_synonym handle_t = "32 word"

text \<open>Signed 64-bit division, truncating towards zero as C++ does.\<close>

definition sdiv64 :: "64 word \<Rightarrow> 64 word \<Rightarrow> 64 word" where
  "sdiv64 a b = word_of_int (sint a sdiv sint b)"

record mapping_handle_t =
  handle :: handle_t
  is_shm :: bool

subsection \<open>System calls and their trace\<close>

datatype win_call =
    Get_file_size handle_t
  | Create_file_mapping handle_t "32 word"
  | Duplicate_current_process_handle handle_t
  | Map_view_of_file_ex handle_t "32 word" "32 word" "32 word" win_size_t win_ptr
  | Close_handle handle_t
  | Flush_view_of_file win_ptr win_size_t
  | Unmap_view_of_file win_ptr

text \<open>
  A call returns a flag and a value. \<open>get_file_size\<close> and
  \<open>duplicate_current_process_handle\<close> return the flag and store the value through
  their out parameter; the calls that return a handle or an address return the value;
  the others return the flag.
\<close>

type_synonym win_ret = "bool \<times> 64 word"
type_synonym win_event = "win_call \<times> win_ret"

text \<open>
  \<open>allocation_granularity\<close> is \<open>info.dwAllocationGranularity\<close> as
  \<open>get_system_info\<close> fills it in, a query with no failure and no effect.

  The remaining fields are what the constructor takes from two headers of the library
  that are not modelled, \<open>detail/win32_api.hpp\<close> and
  \<open>detail/os_file_functions.hpp\<close>: the six access constants of \<open>winapi\<close>, the
  value of \<open>detail::invalid_file()\<close>, and the function
  \<open>detail::file_handle_from_mapping_handle\<close>. They are parameters: every theorem
  holds for all values of them.
\<close>

record win_os =
  win_ret :: "win_event list \<Rightarrow> win_call \<Rightarrow> win_ret"
  last_error :: "win_event list \<Rightarrow> int"
  allocation_granularity :: "32 word"
  page_readonly :: "32 word"
  page_readwrite :: "32 word"
  page_writecopy :: "32 word"
  file_map_read :: "32 word"
  file_map_write :: "32 word"
  file_map_copy :: "32 word"
  invalid_file :: handle_t
  file_handle_from_mapping_handle :: "mapping_handle_t \<Rightarrow> handle_t"

definition win_sys :: "win_os \<Rightarrow> win_call \<Rightarrow> win_event list \<Rightarrow> win_ret \<times> win_event list" where
  "win_sys os c tr = (win_ret os tr c, tr @ [(c, win_ret os tr c)])"

definition get_last_error :: "win_os \<Rightarrow> win_event list \<Rightarrow> error" where
  "get_last_error os tr = system_error (last_error os tr)"

subsection \<open>The object\<close>

record win_region = "32 word mapped_region" +
  m_file_mapping_hnd :: handle_t

definition win_default :: "win_os \<Rightarrow> win_region" where
  "win_default os =
     \<lparr>m_base = 0, m_size = 0, m_offset = 0, m_extra_offset = 0,
      m_file_mapping_hnd = invalid_file os\<rparr>"

definition win_get_size :: "win_region \<Rightarrow> win_size_t" where
  "win_get_size this = m_size this"

definition win_get_offset :: "win_region \<Rightarrow> 64 word" where
  "win_get_offset this = m_offset this"

definition win_get_address :: "win_region \<Rightarrow> win_ptr" where
  "win_get_address this = m_base this"

text \<open>
  \<open>flush\<close>: the value returned is \<open>0 == winapi::flush_view_of_file(...)\<close>, the
  wrapper's boolean compared with 0, so it is \<open>True\<close> exactly when the wrapper
  returns \<open>false\<close>.
\<close>

definition win_flush ::
  "win_os \<Rightarrow> win_region \<Rightarrow> win_size_t \<Rightarrow> win_size_t \<Rightarrow> win_event list \<Rightarrow> bool \<times> win_event list" where
  "win_flush os this mapping_offset numbytes tr =
     (if m_base this = 0 then (False, tr)
      else if m_size this \<le> mapping_offset \<or> m_size this < mapping_offset + numbytes
      then (False, tr)
      else
        let numbytes' =
              (if m_size this = 0 then 0
               else if numbytes = 0 then m_size this - mapping_offset
               else numbytes);
            (r, tr') = win_sys os (Flush_view_of_file (m_base this + mapping_offset) numbytes') tr
        in (fst r = False, tr'))"

definition win_priv_close ::
  "win_os \<Rightarrow> win_region \<Rightarrow> win_event list \<Rightarrow> win_region \<times> win_event list" where
  "win_priv_close os this tr =
     (let (this1, tr1) =
            (if m_base this \<noteq> 0
             then
               let (flushed, tr') = win_flush os this 0 0 tr;
                   (r, tr'') = win_sys os
                      (Unmap_view_of_file (m_base this - ucast (m_extra_offset this))) tr'
               in (this\<lparr>m_base := 0\<rparr>, tr'')
             else (this, tr))
      in if m_file_mapping_hnd this1 \<noteq> 0
         then
           let (r, tr2) = win_sys os (Close_handle (m_file_mapping_hnd this1)) tr1
           in (this1\<lparr>m_file_mapping_hnd := 0\<rparr>, tr2)
         else (this1, tr1))"

definition win_destroy ::
  "win_os \<Rightarrow> win_region \<Rightarrow> win_event list \<Rightarrow> win_region \<times> win_event list" where
  "win_destroy os this tr = win_priv_close os this tr"

text \<open>The switch on the mode: \<open>file_map_access\<close> and \<open>map_access\<close>.\<close>

definition win_access :: "win_os \<Rightarrow> mode_t \<Rightarrow> (32 word \<times> 32 word) option" where
  "win_access os mode =
     (case mode of
        read_only \<Rightarrow> Some (0 OR page_readonly os, 0 OR file_map_read os)
      | read_write \<Rightarrow> Some (0 OR page_readwrite os, 0 OR file_map_write os)
      | copy_on_write \<Rightarrow> Some (0 OR page_writecopy os, 0 OR file_map_copy os)
      | invalid_mode \<Rightarrow> None)"

text \<open>
  The block \<open>if(!mhandle.is_shm)\<close>: the size of the file when \<open>size == 0\<close>, then
  the file mapping. It yields the size and \<open>native_mapping_handle\<close>; on the
  shared-memory path that variable is not yet initialised, the model carries 0 there
  and never reads it.
\<close>

definition win_file_stage ::
  "win_os \<Rightarrow> mapping_handle_t \<Rightarrow> 32 word \<Rightarrow> 64 word \<Rightarrow> win_size_t \<Rightarrow> win_region
     \<Rightarrow> win_event list \<Rightarrow> (error + win_size_t \<times> handle_t) \<times> win_region \<times> win_event list" where
  "win_file_stage os mhandle file_map_access offset sz this tr =
     (if \<not> is_shm mhandle
      then
        let (res, tr1) =
              (if sz = 0
               then
                 let ((ok, total_size), tr') =
                       win_sys os (Get_file_size (file_handle_from_mapping_handle os mhandle)) tr
                 in if \<not> ok then (Inl (get_last_error os tr'), tr')
                    else if (ucast (- 1 :: win_size_t) :: 64 word) <s total_size
                    then (Inl size_error_code, tr')
                    else (Inr (ucast (total_size - offset) :: win_size_t), tr')
               else (Inr sz, tr))
        in case res of
             Inl e \<Rightarrow> (Inl e, this, tr1)
           | Inr sz' \<Rightarrow>
             let ((ok, h), tr2) =
                   win_sys os (Create_file_mapping (file_handle_from_mapping_handle os mhandle)
                                 file_map_access) tr1;
                 native_mapping_handle = (ucast h :: handle_t)
             in if native_mapping_handle = 0
                then
                  let err = get_last_error os tr2;
                      (this', tr3) = win_priv_close os this tr2
                  in (Inl err, this', tr3)
                else (Inr (sz', native_mapping_handle), this, tr2)
      else (Inr (sz, 0), this, tr))"

text \<open>The constructor. \<open>mhandle\<close> is \<open>mapping.get_mapping_handle()\<close>.\<close>

definition win_construct ::
  "win_os \<Rightarrow> mapping_handle_t \<Rightarrow> mode_t \<Rightarrow> 64 word \<Rightarrow> win_size_t \<Rightarrow> win_ptr \<Rightarrow> win_event list
     \<Rightarrow> (error + unit) \<times> win_region \<times> win_event list" where
  "win_construct os mhandle mode offset sz address tr =
     (let this = win_default os in
      case win_access os mode of
        None \<Rightarrow> (Inl mode_error, this, tr)
      | Some (file_map_access, map_access) \<Rightarrow>
        (case win_file_stage os mhandle file_map_access offset sz this tr of
           (Inl e, this', tr1) \<Rightarrow> (Inl e, this', tr1)
         | (Inr (sz', native0), this', tr1) \<Rightarrow>
           let granularity = allocation_granularity os in
           if granularity = 0 then (Inl division_by_zero, this', tr1)
           else
             let g64 = (ucast granularity :: 64 word);
                 foffset_low = (ucast (sdiv64 offset g64) :: 32 word) * granularity;
                 foffset_high = (ucast (signed_drop_bit 32 (sdiv64 offset g64 * g64)) :: 32 word);
                 extra = offset - sdiv64 offset g64 * g64;
                 this1 = this'\<lparr>m_extra_offset := extra, m_offset := offset, m_size := sz'\<rparr>;
                 address' = (if address \<noteq> 0 then address - ucast extra else address);
                 (dup, this2, tr2) =
                   (if is_shm mhandle
                    then
                      let ((ok, h), tr') =
                            win_sys os (Duplicate_current_process_handle (handle mhandle)) tr1
                      in (Some ok, this1\<lparr>m_file_mapping_hnd := ucast h\<rparr>, tr')
                    else (None, this1, tr1))
             in if dup = Some False
                then
                  let err = get_last_error os tr2;
                      (this3, tr3) = win_priv_close os this2 tr2
                  in (Inl err, this3, tr3)
                else
                  let native_mapping_handle =
                        (if is_shm mhandle then m_file_mapping_hnd this2 else native0);
                      (r, tr3) = win_sys os
                         (Map_view_of_file_ex native_mapping_handle map_access
                            foffset_high foffset_low
                            (if m_size this2 \<noteq> 0
                             then (ucast (m_extra_offset this2 + ucast (m_size this2)) :: win_size_t)
                             else 0)
                            address') tr2;
                      this3 = this2\<lparr>m_base := (ucast (snd r) :: win_ptr)\<rparr>;
                      tr4 = (if \<not> is_shm mhandle
                             then snd (win_sys os (Close_handle native_mapping_handle) tr3)
                             else tr3)
                  in if m_base this3 = 0
                     then
                       let err = get_last_error os tr4;
                           (this4, tr5) = win_priv_close os this3 tr4
                       in (Inl err, this4, tr5)
                     else (Inr (), this3\<lparr>m_base := m_base this3 + ucast (m_extra_offset this3)\<rparr>, tr4)))"

definition win_swap :: "win_region \<Rightarrow> win_region \<Rightarrow> win_region \<times> win_region" where
  "win_swap this other =
     (this\<lparr>m_base := m_base other, m_size := m_size other,
           m_offset := m_offset other, m_extra_offset := m_extra_offset other,
           m_file_mapping_hnd := m_file_mapping_hnd other\<rparr>,
      other\<lparr>m_base := m_base this, m_size := m_size this,
            m_offset := m_offset this, m_extra_offset := m_extra_offset this,
            m_file_mapping_hnd := m_file_mapping_hnd this\<rparr>)"

definition win_move_assign :: "win_region \<Rightarrow> win_region \<Rightarrow> win_region \<times> win_region" where
  "win_move_assign this other = win_swap this other"

definition win_move_construct :: "win_os \<Rightarrow> win_region \<Rightarrow> win_region \<times> win_region" where
  "win_move_construct os other = win_swap (win_default os) other"

subsection \<open>A system with one object\<close>

text \<open>
  An oracle for concrete runs: one object of \<open>len\<close> bytes; file mappings get the
  handle \<open>0x44\<close>, duplicated handles \<open>0x48\<close>, views are placed at \<open>raw\<close> and every
  other call succeeds. The allocation granularity is 64 KiB, the access constants have
  the values of the Windows headers, \<open>invalid_file\<close> is \<open>INVALID_HANDLE_VALUE\<close>
  (the word of all ones), and the file handle of a mapping handle is its \<open>handle\<close>.
\<close>

definition win_file_os :: "64 word \<Rightarrow> win_ptr \<Rightarrow> win_os" where
  "win_file_os len raw =
     \<lparr>win_ret = (\<lambda>tr c. case c of
          Get_file_size h \<Rightarrow> (True, len)
        | Create_file_mapping h a \<Rightarrow> (True, 0x44)
        | Duplicate_current_process_handle h \<Rightarrow> (True, 0x48)
        | Map_view_of_file_ex h a hi lo l p \<Rightarrow> (True, ucast raw)
        | Close_handle h \<Rightarrow> (True, 0)
        | Flush_view_of_file p l \<Rightarrow> (True, 0)
        | Unmap_view_of_file p \<Rightarrow> (True, 0)),
      last_error = (\<lambda>tr. 0),
      allocation_granularity = 0x10000,
      page_readonly = 0x02, page_readwrite = 0x04, page_writecopy = 0x08,
      file_map_read = 0x0004, file_map_write = 0x0002, file_map_copy = 0x0001,
      invalid_file = - 1,
      file_handle_from_mapping_handle = handle\<rparr>"

section \<open>Resources held, read off a trace\<close>

text \<open>
  What a run of the code still holds is computed from its trace. On POSIX a mapping
  is acquired by an \<open>mmap\<close> that does not return \<open>MAP_FAILED\<close> and is named by
  the address returned and the length asked for; \<open>munmap\<close> of that address and
  length gives it back.
\<close>

fun posix_account :: "(ptr \<times> size_t) list \<Rightarrow> posix_event \<Rightarrow> (ptr \<times> size_t) list" where
  "posix_account held (Mmap a l p f fd off, r) = (if r = MAP_FAILED then held else (r, l) # held)"
| "posix_account held (Munmap a l, r) = remove1 (a, l) held"
| "posix_account held (Lseek_end fd off, r) = held"
| "posix_account held (Msync a l, r) = held"

definition posix_outstanding :: "posix_event list \<Rightarrow> (ptr \<times> size_t) list" where
  "posix_outstanding tr = foldl posix_account [] tr"

text \<open>
  On Win32 the resources are handles and views. \<open>create_file_mapping\<close> acquires the
  handle it returns unless that is null, \<open>duplicate_current_process_handle\<close> the
  handle it stores when it reports success, \<open>map_view_of_file_ex\<close> the view at the
  address it returns unless that is null; \<open>close_handle\<close> and
  \<open>unmap_view_of_file\<close> give them back.
\<close>

datatype win_resource = File_mapping handle_t | View win_ptr

fun win_account :: "win_resource list \<Rightarrow> win_event \<Rightarrow> win_resource list" where
  "win_account held (Create_file_mapping h a, r) =
     (if (ucast (snd r) :: handle_t) = 0 then held else File_mapping (ucast (snd r)) # held)"
| "win_account held (Duplicate_current_process_handle h, r) =
     (if fst r then File_mapping (ucast (snd r)) # held else held)"
| "win_account held (Map_view_of_file_ex h a hi lo l p, r) =
     (if (ucast (snd r) :: win_ptr) = 0 then held else View (ucast (snd r)) # held)"
| "win_account held (Close_handle h, r) = remove1 (File_mapping h) held"
| "win_account held (Unmap_view_of_file p, r) = remove1 (View p) held"
| "win_account held (Get_file_size h, r) = held"
| "win_account held (Flush_view_of_file p l, r) = held"

definition win_outstanding :: "win_event list \<Rightarrow> win_resource list" where
  "win_outstanding tr = foldl win_account [] tr"

text \<open>The calls of a trace that release something, in the order they were made.\<close>

fun posix_is_release :: "posix_call \<Rightarrow> bool" where
  "posix_is_release (Munmap a l) = True"
| "posix_is_release (Mmap a l p f fd off) = False"
| "posix_is_release (Lseek_end fd off) = False"
| "posix_is_release (Msync a l) = False"

definition posix_releases :: "posix_event list \<Rightarrow> posix_call list" where
  "posix_releases tr = filter posix_is_release (map fst tr)"

fun win_is_release :: "win_call \<Rightarrow> bool" where
  "win_is_release (Unmap_view_of_file p) = True"
| "win_is_release (Close_handle h) = True"
| "win_is_release (Get_file_size h) = False"
| "win_is_release (Create_file_mapping h a) = False"
| "win_is_release (Duplicate_current_process_handle h) = False"
| "win_is_release (Map_view_of_file_ex h a hi lo l p) = False"
| "win_is_release (Flush_view_of_file p l) = False"

definition win_releases :: "win_event list \<Rightarrow> win_call list" where
  "win_releases tr = filter win_is_release (map fst tr)"

text \<open>
  The release calls the destructor of an instance makes: what the instance owns.
\<close>

definition posix_owned :: "posix_region \<Rightarrow> posix_call list" where
  "posix_owned this =
     (if m_base this = MAP_FAILED then []
      else [Munmap (m_base this - m_extra_offset this) (m_size this + m_extra_offset this)])"

definition win_owned :: "win_region \<Rightarrow> win_call list" where
  "win_owned this =
     (if m_base this = 0 then []
      else [Unmap_view_of_file (m_base this - ucast (m_extra_offset this))]) @
     (if m_file_mapping_hnd this = 0 then [] else [Close_handle (m_file_mapping_hnd this)])"

text \<open>The events a call appended to the trace it was given.\<close>

definition issued :: "'e list \<Rightarrow> 'e list \<Rightarrow> 'e list" where
  "issued tr tr' = drop (length tr) tr'"

section \<open>What is assumed of the operating system\<close>

text \<open>
  A few facts about the system are needed where the code compares an adjusted address
  or a handle with its sentinel. On POSIX: \<open>mmap\<close> never places a mapping in the last
  page of the address space (so the address it returns, moved forward by less than a
  page, is not \<open>MAP_FAILED\<close>). On Win32: the allocation granularity is not zero
  (the division by it is defined), and a handle duplication that reports success stores
  a handle that is not null.
\<close>

definition posix_os_ok :: "posix_os \<Rightarrow> bool" where
  "posix_os_ok os \<longleftrightarrow>
     (\<forall>tr a l p f fd off.
        sys_ret os tr (Mmap a l p f fd off) = MAP_FAILED \<or>
        unat (sys_ret os tr (Mmap a l p f fd off)) + unat (sc_pagesize os) < 2 ^ 64)"

definition win_os_ok :: "win_os \<Rightarrow> bool" where
  "win_os_ok os \<longleftrightarrow>
     allocation_granularity os \<noteq> 0 \<and>
     (\<forall>tr h. fst (win_ret os tr (Duplicate_current_process_handle h)) \<longrightarrow>
        (ucast (snd (win_ret os tr (Duplicate_current_process_handle h))) :: handle_t) \<noteq> 0)"

section \<open>Mappings requested, read off a trace\<close>



fun win_mapped_by :: "win_event \<Rightarrow> (win_ptr \<times> win_size_t) list" where
  "win_mapped_by (Map_view_of_file_ex h a hi lo l p, r) = [(ucast (snd r), l)]"
| "win_mapped_by (Get_file_size h, r) = []"
| "win_mapped_by (Create_file_mapping h a, r) = []"
| "win_mapped_by (Duplicate_current_process_handle h, r) = []"
| "win_mapped_by (Close_handle h, r) = []"
| "win_mapped_by (Flush_view_of_file p l, r) = []"
| "win_mapped_by (Unmap_view_of_file p, r) = []"

definition win_views :: "win_event list \<Rightarrow> (win_ptr \<times> win_size_t) list" where
  "win_views tr = concat (map win_mapped_by tr)"

section \<open>Instances for concrete runs\<close>

text \<open>
  Two POSIX instances, each made by the constructor from a 4096-byte object mapped
  read-write at offset 0 with size 100, and a Win32 instance as the constructor leaves it
  for a shared-memory object mapped at offset 10 with size 100.
\<close>

definition region_a :: posix_region where
  "region_a = fst (snd (posix_construct (file_os 4096 0x7f0000000000) 3 read_write 0 100 0 []))"

definition region_b :: posix_region where
  "region_b = fst (snd (posix_construct (file_os 4096 0x7f0000010000) 4 read_write 0 100 0 []))"

definition region_w :: win_region where
  "region_w = fst (snd (win_construct (win_file_os 4096 0x20000)
                 \<lparr>handle = 0x10, is_shm = True\<rparr> read_write 10 100 0 []))"

section \<open>Auxiliary facts\<close>

subsection \<open>Words\<close>

lemma unat_add_no_wrap64:
  "unat (a::64 word) + unat b < 2 ^ 64 \<Longrightarrow> unat (a + b) = unat a + unat b"
  using unat_add_lem [of a b] by simp

lemma unat_add_no_wrap32:
  "unat (a::32 word) + unat b < 2 ^ 32 \<Longrightarrow> unat (a + b) = unat a + unat b"
  using unat_add_lem [of a b] by simp

lemma unat_max64: "unat (- 1 :: 64 word) = 2 ^ 64 - 1"
  by (simp add: unsigned_minus_1_eq_mask mask_eq_exp_minus_1)

lemma ucast_minus_one_64_32: "(ucast (- 1 :: 64 word) :: 32 word) = - 1"
  by (rule bit_word_eqI) (simp add: bit_simps)

lemma uint_pos: "(ps::'a::len word) \<noteq> 0 \<Longrightarrow> 0 < uint ps"
  by (metis unsigned_0 word_less_iff_unsigned unat_gt_0)

lemma int_wrap_cases:
  fixes u :: int
  assumes "0 \<le> u" "u < 2 * h" "0 < h"
  shows "(u + h) mod (2 * h) - h = (if u < h then u else u - 2 * h)"
proof (cases "u < h")
  case True
  then have "(u + h) mod (2 * h) = u + h" using assms by (simp add: mod_pos_pos_trivial)
  then show ?thesis using True by simp
next
  case False
  have "(u + h) mod (2 * h) = (u - h + 2 * h) mod (2 * h)" by (simp add: algebra_simps)
  also have "\<dots> = (u - h) mod (2 * h)" by (simp only: mod_add_self2)
  also have "\<dots> = u - h" using False assms by (simp add: mod_pos_pos_trivial)
  finally show ?thesis using False by simp
qed

text \<open>The signed reading of a 64-bit word, by cases on its unsigned reading.\<close>

lemma sint64_cases: "sint (x::64 word) = (if uint x < 2 ^ 63 then uint x else uint x - 2 ^ 64)"
proof -
  have b: "0 \<le> uint x" "uint x < 2 * 2 ^ 63" using uint_bounded [of x] by simp_all
  have "sint x = sint (word_of_int (uint x) :: 64 word)" by simp
  also have "\<dots> = (uint x + 2 ^ 63) mod (2 * 2 ^ 63) - 2 ^ 63"
    by (simp only: int_word_sint) simp
  also have "\<dots> = (if uint x < 2 ^ 63 then uint x else uint x - 2 * 2 ^ 63)"
    using b by (intro int_wrap_cases) simp_all
  finally show ?thesis by simp
qed

lemma sint_nonneg_uint: "0 \<le> sint (x::64 word) \<Longrightarrow> uint x = sint x"
  using uint_bounded [of x] by (simp add: sint64_cases split: if_splits)

lemma sint_small_uint: "uint (x::64 word) < 2 ^ 63 \<Longrightarrow> sint x = uint x"
  by (simp add: sint64_cases)

lemma sint_ucast_32_64: "sint (ucast (g::32 word) :: 64 word) = uint g"
proof -
  have "uint (ucast g :: 64 word) = uint g"
    by (simp add: uint_up_ucast is_up)
  moreover have "uint g < 2 ^ 63" using uint_bounded [of g] by simp
  ultimately show ?thesis by (simp add: sint_small_uint)
qed

lemma sint_size_max_32: "sint (ucast (- 1 :: 32 word) :: 64 word) = 4294967295"
  by (simp add: sint_ucast_32_64 unsigned_minus_1_eq_mask mask_eq_exp_minus_1)

text \<open>
  The POSIX expression \<open>offset - (offset / page_size) * page_size\<close>, for an offset
  that is not negative.
\<close>

lemma posix_extra_nonneg:
  fixes offset ps :: "64 word"
  assumes "0 \<le> sint offset" and "ps \<noteq> 0"
  shows "sint (offset mod ps) = sint offset mod uint ps \<and>
         0 \<le> sint (offset mod ps) \<and> sint (offset mod ps) < uint ps"
proof -
  have u: "uint offset = sint offset" using assms(1) by (rule sint_nonneg_uint)
  have m: "uint (offset mod ps) = sint offset mod uint ps"
    by (simp add: uint_mod_distrib u)
  have pos: "0 < uint ps" using assms(2) by (rule uint_pos)
  have "uint (offset mod ps) \<le> uint offset"
    unfolding m u using assms(1) by (rule zmod_le_nonneg_dividend)
  moreover have "sint offset < 2 ^ 63" using sint_lt [of offset] by simp
  ultimately have "uint (offset mod ps) < 2 ^ 63"
    using u by simp
  then have s: "sint (offset mod ps) = uint (offset mod ps)" by (rule sint_small_uint)
  show ?thesis using s m pos by simp
qed

text \<open>The Win32 expression, with its signed division, for such an offset.\<close>

lemma win_extra_nonneg:
  fixes offset :: "64 word" and g :: "32 word"
  assumes "0 \<le> sint offset" and "g \<noteq> 0"
  shows "sint (offset - sdiv64 offset (ucast g) * ucast g) = sint offset mod uint g \<and>
         0 \<le> sint (offset - sdiv64 offset (ucast g) * ucast g) \<and>
         sint (offset - sdiv64 offset (ucast g) * ucast g) < uint g"
proof -
  have pos: "0 < uint g" using assms(2) by (rule uint_pos)
  have gb: "uint g < 2 ^ 32" using uint_bounded [of g] by simp
  have q: "sint offset sdiv uint g = sint offset div uint g"
    using assms(1) pos by (simp add: signed_divide_int_def sgn_if)
  have "offset - sdiv64 offset (ucast g) * ucast g =
        word_of_int (sint offset) - word_of_int (sint offset div uint g) * word_of_int (uint g)"
    unfolding sdiv64_def sint_ucast_32_64 q by simp
  also have "\<dots> = word_of_int (sint offset - (sint offset div uint g) * uint g)"
    by (simp only: wi_hom_syms)
  also have "\<dots> = word_of_int (sint offset mod uint g)"
    by (simp add: minus_div_mult_eq_mod)
  finally have e:
    "offset - sdiv64 offset (ucast g) * ucast g = word_of_int (sint offset mod uint g)" .
  have r: "0 \<le> sint offset mod uint g" "sint offset mod uint g < uint g"
    using pos by simp_all
  have "uint (word_of_int (sint offset mod uint g) :: 64 word) = sint offset mod uint g"
    using r gb by (simp add: uint_word_of_int mod_pos_pos_trivial)
  moreover from this
  have "sint (word_of_int (sint offset mod uint g) :: 64 word) = sint offset mod uint g"
    using r gb by (simp add: sint_small_uint)
  ultimately show ?thesis unfolding e using r by simp
qed

text \<open>
  An address below the last page, moved forward by the extra offset, is not the
  sentinel.
\<close>

lemma adjusted_base_not_sentinel:
  fixes raw offset ps :: "64 word"
  assumes "unat raw + unat ps < 2 ^ 64" and "ps \<noteq> 0"
  shows "raw + (offset - offset div ps * ps) \<noteq> MAP_FAILED"
proof -
  have e: "offset - offset div ps * ps = offset mod ps"
    by (rule minus_div_mult_eq_mod)
  have "unat (offset mod ps) < unat ps"
    using assms(2) by (simp add: unat_mod unat_gt_0)
  then have lt: "unat raw + unat (offset mod ps) < 2 ^ 64 - 1" using assms(1) by simp
  then have "unat (raw + offset mod ps) = unat raw + unat (offset mod ps)"
    using unat_add_lem [of raw "offset mod ps"] by simp
  then have "unat (raw + offset mod ps) \<noteq> unat (- 1 :: 64 word)"
    using lt by (simp add: unat_max64)
  then show ?thesis unfolding e MAP_FAILED_def by metis
qed

subsection \<open>Traces\<close>

lemma issued_append: "issued tr (tr @ ev) = ev"
  by (simp add: issued_def)

lemma issued_same: "issued tr tr = []"
  by (simp add: issued_def)

lemma posix_releases_Nil: "posix_releases [] = []"
  by (simp add: posix_releases_def)

lemma win_releases_Nil: "win_releases [] = []"
  by (simp add: win_releases_def)

lemma posix_outstanding_append:
  "posix_outstanding (xs @ ys) = foldl posix_account (posix_outstanding xs) ys"
  by (simp add: posix_outstanding_def)

lemma win_outstanding_append:
  "win_outstanding (xs @ ys) = foldl win_account (win_outstanding xs) ys"
  by (simp add: win_outstanding_def)

lemma win_outstanding_Nil: "win_outstanding [] = []"
  by (simp add: win_outstanding_def)

subsection \<open>Swap\<close>

lemma posix_swap_eq: "posix_swap a b = (b, a)"
  by (simp add: posix_swap_def)

lemma win_swap_eq: "win_swap a b = (b, a)"
  by (simp add: win_swap_def)

subsection \<open>Flush and close\<close>

lemma posix_flush_trace:
  "\<exists>ev. snd (posix_flush os this off n tr) = tr @ ev \<and> posix_releases ev = []"
  by (auto simp: posix_flush_def posix_sys_def Let_def posix_releases_def)

lemma win_flush_trace:
  "\<exists>ev. snd (win_flush os this off n tr) = tr @ ev \<and> win_releases ev = []"
  by (auto simp: win_flush_def win_sys_def Let_def win_releases_def split: prod.splits)

lemma posix_destroy_releases:
  "posix_releases (snd (posix_destroy os this tr)) = posix_releases tr @ posix_owned this"
  using posix_flush_trace [of os this 0 0 tr]
  by (auto simp: posix_destroy_def posix_priv_close_def posix_owned_def posix_sys_def Let_def
       posix_releases_def split: prod.splits)

lemma win_destroy_releases:
  "win_releases (snd (win_destroy os this tr)) = win_releases tr @ win_owned this"
  using win_flush_trace [of os this 0 0 tr]
  by (auto simp: win_destroy_def win_priv_close_def win_owned_def win_sys_def Let_def
       win_releases_def split: prod.splits)

lemma posix_flush_out_of_bounds:
  assumes "m_size this \<le> off \<or>
           (unat off + unat n < 2 ^ 64 \<and> unat (m_size this) < unat off + unat n)"
  shows "posix_flush os this off n tr = (False, tr)"
proof -
  have "m_size this \<le> off \<or> m_size this < off + n"
    using assms by (auto simp: word_less_nat_alt unat_add_no_wrap64)
  then show ?thesis by (simp add: posix_flush_def)
qed

lemma win_flush_out_of_bounds:
  assumes "m_size this \<le> off \<or>
           (unat off + unat n < 2 ^ 32 \<and> unat (m_size this) < unat off + unat n)"
  shows "win_flush os this off n tr = (False, tr)"
proof -
  have "m_size this \<le> off \<or> m_size this < off + n"
    using assms by (auto simp: word_less_nat_alt unat_add_no_wrap32)
  then show ?thesis by (simp add: win_flush_def)
qed

lemma posix_flush_events:
  "snd (posix_flush os this off n tr) = tr \<or>
   (\<exists>a l r. snd (posix_flush os this off n tr) = tr @ [(Msync a l, r)])"
  by (auto simp: posix_flush_def posix_sys_def Let_def)

lemma posix_priv_close_events:
  "m_base this \<noteq> MAP_FAILED \<Longrightarrow>
   \<exists>ev r. snd (posix_priv_close os this tr) =
      tr @ ev @ [(Munmap (m_base this - m_extra_offset this) (m_size this + m_extra_offset this), r)] \<and>
      (ev = [] \<or> (\<exists>a l r'. ev = [(Msync a l, r')]))"
  using posix_flush_events [of os this 0 0 tr]
  by (auto simp: posix_priv_close_def posix_sys_def Let_def split: prod.splits)

lemma posix_priv_close_base: "m_base (fst (posix_priv_close os this tr)) = MAP_FAILED"
  by (auto simp: posix_priv_close_def Let_def split: prod.splits)

lemma win_priv_close_unmapped:
  "m_base this = 0 \<Longrightarrow>
   win_priv_close os this tr =
     (if m_file_mapping_hnd this \<noteq> 0
      then (this\<lparr>m_file_mapping_hnd := 0\<rparr>,
            tr @ [(Close_handle (m_file_mapping_hnd this),
                   win_ret os tr (Close_handle (m_file_mapping_hnd this)))])
      else (this, tr))"
  by (simp add: win_priv_close_def win_sys_def Let_def)

subsection \<open>The concrete instances\<close>

lemma region_a_eq:
  "region_a = \<lparr>m_base = 0x7f0000000000, m_size = 100, m_offset = 0, m_extra_offset = 0\<rparr>"
  by (simp add: region_a_def posix_construct_def posix_resolve_size_def posix_sys_def file_os_def
      posix_default_def posix_prot_flags_def posix_get_page_size_def
      MAP_FAILED_def PROT_READ_def PROT_WRITE_def MAP_SHARED_def)

lemma region_b_eq:
  "region_b = \<lparr>m_base = 0x7f0000010000, m_size = 100, m_offset = 0, m_extra_offset = 0\<rparr>"
  by (simp add: region_b_def posix_construct_def posix_resolve_size_def posix_sys_def file_os_def
      posix_default_def posix_prot_flags_def posix_get_page_size_def
      MAP_FAILED_def PROT_READ_def PROT_WRITE_def MAP_SHARED_def)

lemma region_w_eq:
  "region_w = \<lparr>m_base = 0x2000A, m_size = 100, m_offset = 10, m_extra_offset = 10,
                m_file_mapping_hnd = 0x48\<rparr>"
  by (simp add: region_w_def win_construct_def win_file_stage_def win_sys_def win_file_os_def
      win_default_def win_access_def Let_def sdiv64_def)

subsection \<open>The constructors\<close>

lemma posix_resolve_size_trace:
  "posix_resolve_size os fd offset sz tr = (r, tr1) \<Longrightarrow>
     tr1 = tr \<or> tr1 = tr @ [(Lseek_end fd offset, sys_ret os tr (Lseek_end fd offset))]"
  by (auto simp: posix_resolve_size_def posix_sys_def Let_def split: if_splits)

lemma posix_resolve_size_nonzero:
  "posix_resolve_size os fd offset sz tr = (Inr sz', tr1) \<Longrightarrow> sz' \<noteq> 0"
  by (auto simp: posix_resolve_size_def posix_sys_def Let_def word_sle_eq split: if_splits)

lemma posix_resolve_size_given:
  "sz \<noteq> 0 \<Longrightarrow> posix_resolve_size os fd offset sz tr = (Inr sz, tr)"
  by (simp add: posix_resolve_size_def)

text \<open>
  With \<open>size == 0\<close>, on any system whose \<open>lseek\<close> answers as POSIX specifies for
  an object of \<open>len\<close> bytes, the size the constructor goes on with is \<open>len\<close>,
  whatever the offset.
\<close>

lemma sint_add_no_overflow:
  fixes a b :: "64 word"
  assumes "- (2 ^ 63) \<le> sint a + sint b" "sint a + sint b < 2 ^ 63"
  shows "sint (a + b) = sint a + sint b"
  using assms by (simp add: sint_word_add signed_take_bit_int_eq_self)

lemma posix_size_zero_resolves_to_length:
  assumes l: "sys_ret os tr (Lseek_end fd offset) = posix_lseek_end len offset"
    and len: "0 < sint len" and off: "0 \<le> sint offset"
    and fit: "sint len + sint offset < 2 ^ 63"
  shows "fst (posix_resolve_size os fd offset 0 tr) = Inr len"
proof -
  have s: "sint (len + offset) = sint len + sint offset"
    using len off fit by (intro sint_add_no_overflow) simp_all
  have e: "posix_lseek_end len offset = len + offset"
    using len off fit by (simp add: posix_lseek_end_def)
  have n1: "len + offset \<noteq> - 1"
  proof
    assume "len + offset = - 1"
    then have "sint (len + offset) = - 1" by simp
    then show False using s len off by simp
  qed
  have n2: "\<not> len + offset \<le>s offset"
    using s len by (simp add: word_sle_eq)
  show ?thesis
    using n1 n2 by (simp add: posix_resolve_size_def posix_sys_def l e Let_def)
qed

text \<open>
  A constructor that throws has given back whatever it acquired, and leaves the
  sentinel in \<open>m_base\<close>.
\<close>

lemma posix_construct_failure:
  assumes ok: "posix_os_ok os"
    and f: "posix_construct os fd mode offset sz address tr = (Inl e, this, tr')"
  shows "posix_outstanding (issued tr tr') = [] \<and> m_base this = MAP_FAILED"
proof -
  obtain r tr1 where rs: "posix_resolve_size os fd offset sz tr = (r, tr1)"
    by (cases "posix_resolve_size os fd offset sz tr")
  from posix_resolve_size_trace [OF rs]
  obtain ev0 where tr1: "tr1 = tr @ ev0" and ev0: "posix_outstanding ev0 = []"
    by (auto simp: posix_outstanding_def)
  show ?thesis
  proof (cases r)
    case (Inl e')
    then show ?thesis using f rs tr1 ev0
      by (auto simp: posix_construct_def posix_default_def issued_append)
  next
    case (Inr sz')
    show ?thesis
    proof (cases "posix_prot_flags mode")
      case None
      then show ?thesis using f rs Inr tr1 ev0
        by (auto simp: posix_construct_def posix_default_def issued_append)
    next
      case (Some pf)
      obtain prot flags where pf: "pf = (prot, flags)" by (cases pf)
      show ?thesis
      proof (cases "sc_pagesize os = 0")
        case True
        then show ?thesis using f rs Inr Some pf tr1 ev0
          by (auto simp: posix_construct_def posix_default_def issued_append
              posix_get_page_size_def)
      next
        case False
        define extra where "extra = offset - offset div sc_pagesize os * sc_pagesize os"
        define address' where "address' = (if address \<noteq> 0 then address - extra else address)"
        define call where "call = Mmap address' (extra + sz') prot flags fd (offset - extra)"
        define raw where "raw = sys_ret os tr1 call"
        define this2 :: posix_region where
          "this2 = \<lparr>m_base = raw, m_size = sz', m_offset = offset, m_extra_offset = extra\<rparr>"
        show ?thesis
        proof (cases "raw = MAP_FAILED")
          case True
          then have "this = this2 \<and> tr' = tr1 @ [(call, raw)]"
            using f rs Inr Some pf False
            by (simp add: posix_construct_def posix_default_def posix_get_page_size_def Let_def
                posix_sys_def posix_priv_close_def extra_def [symmetric] address'_def [symmetric]
                call_def [symmetric] raw_def [symmetric] this2_def)
          then show ?thesis using True tr1 ev0
            by (simp add: issued_append posix_outstanding_append this2_def call_def)
        next
          case mapped: False
          have "unat raw + unat (sc_pagesize os) < 2 ^ 64"
            using ok mapped unfolding posix_os_ok_def raw_def call_def by blast
          then have ne: "raw + extra \<noteq> MAP_FAILED"
            unfolding extra_def using False by (rule adjusted_base_not_sentinel)
          define this3 where "this3 = this2\<lparr>m_base := raw + extra\<rparr>"
          have b3: "m_base this3 \<noteq> MAP_FAILED" using ne by (simp add: this3_def)
          have "address' \<noteq> 0 \<and> raw \<noteq> address' \<and>
                this = fst (posix_priv_close os this3 (tr1 @ [(call, raw)])) \<and>
                tr' = snd (posix_priv_close os this3 (tr1 @ [(call, raw)]))"
            using f rs Inr Some pf False mapped
            by (simp add: posix_construct_def posix_default_def posix_get_page_size_def Let_def
                posix_sys_def extra_def [symmetric] address'_def [symmetric]
                call_def [symmetric] raw_def [symmetric] this2_def this3_def
                split: if_splits prod.splits)
          moreover from posix_priv_close_events [OF b3, of os "tr1 @ [(call, raw)]"]
          obtain ev r' where
            "snd (posix_priv_close os this3 (tr1 @ [(call, raw)])) =
               (tr1 @ [(call, raw)]) @ ev @ [(Munmap raw (sz' + extra), r')]"
            and "ev = [] \<or> (\<exists>a l r'. ev = [(Msync a l, r')])"
            by (auto simp: this3_def this2_def)
          ultimately show ?thesis using tr1 ev0 mapped
            by (auto simp: issued_append posix_outstanding_append posix_priv_close_base call_def
                add.commute)
        qed
      qed
    qed
  qed
qed

lemma win_file_stage_fail:
  assumes "win_file_stage os mh acc offset sz (win_default os) tr = (Inl e, this', tr1)"
  shows "m_base this' = 0 \<and> win_outstanding (issued tr tr1) = []"
  using assms
  by (auto simp: win_file_stage_def win_sys_def Let_def win_default_def win_priv_close_unmapped
      issued_append issued_same win_outstanding_def
      split: if_splits prod.splits sum.splits)

lemma win_file_stage_ok:
  assumes "win_file_stage os mh acc offset sz (win_default os) tr = (Inr (sz', native), this', tr1)"
  shows "this' = win_default os \<and> (\<exists>ev. tr1 = tr @ ev \<and>
           win_outstanding ev = (if is_shm mh then [] else [File_mapping native]))"
  using assms
  by (auto simp: win_file_stage_def win_sys_def Let_def win_default_def
      win_outstanding_def
      split: if_splits prod.splits sum.splits)

lemma win_construct_failure:
  assumes ok: "win_os_ok os"
    and f: "win_construct os mh mode offset sz address tr = (Inl e, this, tr')"
  shows "win_outstanding (issued tr tr') = [] \<and> m_base this = 0"
proof (cases "win_access os mode")
  case None
  then show ?thesis using f
    by (auto simp: win_construct_def win_default_def issued_same win_outstanding_Nil)
next
  case (Some acc)
  obtain fma ma where acc: "acc = (fma, ma)" by (cases acc)
  obtain r this1 tr1
    where fs: "win_file_stage os mh fma offset sz (win_default os) tr = (r, this1, tr1)"
    by (cases "win_file_stage os mh fma offset sz (win_default os) tr")
  show ?thesis
  proof (cases r)
    case (Inl e')
    then show ?thesis
      using f Some acc fs win_file_stage_fail [of os mh fma offset sz tr e' this1 tr1]
      by (auto simp: win_construct_def)
  next
    case (Inr p)
    obtain sz' native where p: "p = (sz', native)" by (cases p)
    from win_file_stage_ok [of os mh fma offset sz tr sz' native this1 tr1] fs Inr p
    obtain ev0 where this1: "this1 = win_default os" and tr1: "tr1 = tr @ ev0"
      and ev0: "win_outstanding ev0 = (if is_shm mh then [] else [File_mapping native])"
      by auto
    have g: "allocation_granularity os \<noteq> 0" using ok by (simp add: win_os_ok_def)
    show ?thesis
    proof (cases "is_shm mh")
      case True
      have dn: "(ucast x :: 32 word) \<noteq> 0"
        if "win_ret os t (Duplicate_current_process_handle (handle mh)) = (True, x)" for t x
        using ok that unfolding win_os_ok_def by (metis fst_conv snd_conv)
      show ?thesis using f Some acc fs Inr p this1 tr1 ev0 g True dn
        by (auto simp: win_construct_def Let_def win_sys_def win_default_def
            win_priv_close_unmapped issued_append win_outstanding_append
            split: prod.splits if_splits)
    next
      case False
      show ?thesis using f Some acc fs Inr p this1 tr1 ev0 g False
        by (auto simp: win_construct_def Let_def win_sys_def win_default_def
            win_priv_close_unmapped issued_append win_outstanding_append
            split: prod.splits if_splits)
    qed
  qed
qed

text \<open>The constructors only append to the trace they are given.\<close>

lemma posix_priv_close_extends: "\<exists>ev. snd (posix_priv_close os this tr) = tr @ ev"
  using posix_flush_trace [of os this 0 0 tr]
  by (auto simp: posix_priv_close_def posix_sys_def Let_def split: prod.splits)

lemma win_priv_close_extends: "\<exists>ev. snd (win_priv_close os this tr) = tr @ ev"
  using win_flush_trace [of os this 0 0 tr]
  by (auto simp: win_priv_close_def win_sys_def Let_def split: prod.splits)

lemma posix_construct_extends:
  "\<exists>ev. snd (snd (posix_construct os fd mode offset sz address tr)) = tr @ ev"
proof -
  obtain r tr1 where rs: "posix_resolve_size os fd offset sz tr = (r, tr1)"
    by (cases "posix_resolve_size os fd offset sz tr")
  from posix_resolve_size_trace [OF rs] obtain ev0 where tr1: "tr1 = tr @ ev0" by auto
  have pc: "\<exists>ev. snd (posix_priv_close os this (tr @ xs)) = tr @ ev" for this xs
    using posix_priv_close_extends [of os this "tr @ xs"] by auto
  show ?thesis using rs tr1 pc
    by (auto simp: posix_construct_def posix_sys_def Let_def
        split: sum.splits option.splits prod.splits if_splits)
qed

lemma win_file_stage_extends:
  "\<exists>ev. snd (snd (win_file_stage os mh acc offset sz this tr)) = tr @ ev"
proof -
  have pc: "\<exists>ev. snd (win_priv_close os this (tr @ xs)) = tr @ ev" for this xs
    using win_priv_close_extends [of os this "tr @ xs"] by auto
  show ?thesis using pc
    by (auto simp: win_file_stage_def win_sys_def Let_def
        split: sum.splits option.splits prod.splits if_splits)
qed

lemma win_construct_extends:
  "\<exists>ev. snd (snd (win_construct os mh mode offset sz address tr)) = tr @ ev"
proof (cases "win_access os mode")
  case None
  then show ?thesis by (simp add: win_construct_def)
next
  case (Some acc)
  obtain fma ma where acc: "acc = (fma, ma)" by (cases acc)
  obtain r this1 tr1
    where fs: "win_file_stage os mh fma offset sz (win_default os) tr = (r, this1, tr1)"
    by (cases "win_file_stage os mh fma offset sz (win_default os) tr")
  from win_file_stage_extends [of os mh fma offset sz "win_default os" tr] fs
  obtain ev0 where tr1: "tr1 = tr @ ev0" by auto
  have pc: "\<exists>ev. snd (win_priv_close os this (tr @ xs)) = tr @ ev" for this xs
    using win_priv_close_extends [of os this "tr @ xs"] by auto
  show ?thesis using Some acc fs tr1 pc
    by (auto simp: win_construct_def win_sys_def Let_def
        split: sum.splits option.splits prod.splits if_splits)
qed

lemma issued_of_extension: "\<exists>ev. tr' = tr @ ev \<Longrightarrow> tr' = tr @ issued tr tr'"
  by (auto simp: issued_def)

text \<open>What a constructor that returns normally has done.\<close>

lemma posix_construct_success:
  assumes "posix_construct os fd mode offset sz address tr = (Inr (), this, tr')"
  obtains sz' tr1 prot flags raw where
    "posix_resolve_size os fd offset sz tr = (Inr sz', tr1)"
    "posix_prot_flags mode = Some (prot, flags)"
    "sc_pagesize os \<noteq> 0"
    "raw \<noteq> MAP_FAILED"
    "this = \<lparr>m_base = raw + offset mod sc_pagesize os, m_size = sz', m_offset = offset,
             m_extra_offset = offset mod sc_pagesize os\<rparr>"
    "tr' = tr1 @ [(Mmap (if address \<noteq> 0 then address - offset mod sc_pagesize os else address)
                     (offset mod sc_pagesize os + sz') prot flags fd
                     (offset - offset mod sc_pagesize os), raw)]"
  using assms
  by (auto simp: posix_construct_def posix_default_def posix_get_page_size_def Let_def
      posix_sys_def minus_div_mult_eq_mod
      split: sum.splits option.splits prod.splits if_splits)


lemma win_views_append: "win_views (xs @ ys) = win_views xs @ win_views ys"
  by (simp add: win_views_def)


lemma posix_construct_extra:
  assumes "posix_construct os fd mode offset sz address tr = (Inr (), this, tr')"
  shows "sc_pagesize os \<noteq> 0 \<and> m_extra_offset this = offset mod sc_pagesize os \<and>
         m_offset this = offset \<and> (sz \<noteq> 0 \<longrightarrow> m_size this = sz)"
proof -
  from assms obtain sz' tr1 prot flags raw where
    rs: "posix_resolve_size os fd offset sz tr = (Inr sz', tr1)" and
    ps: "sc_pagesize os \<noteq> 0" and
    th: "this = \<lparr>m_base = raw + offset mod sc_pagesize os, m_size = sz', m_offset = offset,
             m_extra_offset = offset mod sc_pagesize os\<rparr>"
    by (rule posix_construct_success)
  have "sz \<noteq> 0 \<Longrightarrow> sz' = sz" using rs by (simp add: posix_resolve_size_given)
  then show ?thesis using ps th by simp
qed

lemma win_file_stage_views:
  assumes "win_file_stage os mh acc offset sz (win_default os) tr = (Inr (sz', native), this', tr1)"
  shows "this' = win_default os \<and> (sz \<noteq> 0 \<longrightarrow> sz' = sz) \<and>
         (\<exists>ev. tr1 = tr @ ev \<and> win_views ev = [])"
  using assms
  by (auto simp: win_file_stage_def win_sys_def Let_def win_default_def win_views_def
      split: if_splits prod.splits sum.splits)

lemma win_construct_success:
  assumes "win_construct os mh mode offset sz address tr = (Inr (), this, tr')"
  shows "allocation_granularity os \<noteq> 0 \<and>
         m_offset this = offset \<and> (sz \<noteq> 0 \<longrightarrow> m_size this = sz) \<and>
         m_extra_offset this =
           offset - sdiv64 offset (ucast (allocation_granularity os)) *
                      ucast (allocation_granularity os) \<and>
         win_views (issued tr tr') =
           [(m_base this - ucast (m_extra_offset this),
             if m_size this \<noteq> 0 then ucast (m_extra_offset this + ucast (m_size this)) else 0)]"
proof (cases "win_access os mode")
  case None
  then show ?thesis using assms by (simp add: win_construct_def)
next
  case (Some acc)
  obtain fma ma where acc: "acc = (fma, ma)" by (cases acc)
  obtain r this1 tr1
    where fs: "win_file_stage os mh fma offset sz (win_default os) tr = (r, this1, tr1)"
    by (cases "win_file_stage os mh fma offset sz (win_default os) tr")
  show ?thesis
  proof (cases r)
    case (Inl e')
    then show ?thesis using assms Some acc fs by (simp add: win_construct_def)
  next
    case (Inr p)
    obtain sz' native where p: "p = (sz', native)" by (cases p)
    from win_file_stage_views [of os mh fma offset sz tr sz' native this1 tr1] fs Inr p
    obtain ev0 where this1: "this1 = win_default os" and sz': "sz \<noteq> 0 \<longrightarrow> sz' = sz"
      and tr1: "tr1 = tr @ ev0" and ev0: "win_views ev0 = []"
      by auto
    show ?thesis
    proof (cases "is_shm mh")
      case True
      then show ?thesis using assms Some acc fs Inr p this1 tr1 ev0 sz'
        by (auto simp: win_construct_def Let_def win_sys_def win_default_def
            issued_append win_views_append win_views_def
            split: prod.splits if_splits)
    next
      case False
      then show ?thesis using assms Some acc fs Inr p this1 tr1 ev0 sz'
        by (auto simp: win_construct_def Let_def win_sys_def win_default_def
            issued_append win_views_append win_views_def
            split: prod.splits if_splits)
    qed
  qed
qed



text \<open>
  The destructor on an unmapped instance does nothing (on Win32, when the handle member
  is null as well). On a mapped instance whose size is not 0 it flushes the whole
  region, then unmaps it, then (Win32) closes the handle it holds; it returns whatever
  the system answers to these calls.
\<close>

lemma posix_destroy_unmapped:
  "m_base this = MAP_FAILED \<Longrightarrow> posix_destroy os this tr = (this, tr)"
  by (simp add: posix_destroy_def posix_priv_close_def)

lemma posix_destroy_mapped:
  assumes "m_base this \<noteq> MAP_FAILED" and "m_size this \<noteq> 0"
  shows "posix_destroy os this tr =
    (this\<lparr>m_base := MAP_FAILED\<rparr>,
     tr @ [(Msync (m_base this) (m_size this), sys_ret os tr (Msync (m_base this) (m_size this))),
           (Munmap (m_base this - m_extra_offset this) (m_size this + m_extra_offset this),
            sys_ret os (tr @ [(Msync (m_base this) (m_size this),
                               sys_ret os tr (Msync (m_base this) (m_size this)))])
              (Munmap (m_base this - m_extra_offset this) (m_size this + m_extra_offset this)))])"
  using assms
  by (simp add: posix_destroy_def posix_priv_close_def posix_flush_def posix_sys_def Let_def
      word_greater_zero_iff not_le not_less)

lemma win_destroy_unmapped:
  "m_base this = 0 \<Longrightarrow> m_file_mapping_hnd this = 0 \<Longrightarrow> win_destroy os this tr = (this, tr)"
  by (simp add: win_destroy_def win_priv_close_def)

lemma win_destroy_mapped:
  assumes "m_base this \<noteq> 0" and "m_size this \<noteq> 0" and "m_file_mapping_hnd this \<noteq> 0"
  shows "\<exists>r1 r2 r3. win_destroy os this tr =
    (this\<lparr>m_base := 0, m_file_mapping_hnd := 0\<rparr>,
     tr @ [(Flush_view_of_file (m_base this) (m_size this), r1),
           (Unmap_view_of_file (m_base this - ucast (m_extra_offset this)), r2),
           (Close_handle (m_file_mapping_hnd this), r3)])"
  using assms
  by (simp add: win_destroy_def win_priv_close_def win_flush_def win_sys_def Let_def
      word_greater_zero_iff not_le not_less split: prod.splits)

text \<open>
  A \<open>flush\<close> that reaches the system does so with one call, on an instance whose size
  is not 0, from an offset below the size; the Win32 branch for \<open>m_size == 0\<close> is
  never taken. The byte count lies within the size only as \<open>std::size_t\<close> computes
  the sum \<open>mapping_offset + numbytes\<close>, that is modulo the word size.
\<close>

lemma posix_flush_reaches_system:
  assumes "posix_flush os this off n tr = (b, tr')" and "tr' \<noteq> tr"
  shows "0 < m_size this \<and> off < m_size this \<and>
         (\<exists>r. tr' = tr @ [(Msync (m_base this + off) (if n = 0 then m_size this - off else n), r)]) \<and>
         0 < (if n = 0 then m_size this - off else n) \<and>
         off + (if n = 0 then m_size this - off else n) \<le> m_size this"
  using assms
  by (auto simp: posix_flush_def posix_sys_def Let_def word_greater_zero_iff not_le not_less
      split: if_splits)

lemma win_flush_reaches_system:
  assumes "win_flush os this off n tr = (b, tr')" and "tr' \<noteq> tr"
  shows "m_size this \<noteq> 0 \<and> off < m_size this \<and>
         (\<exists>r. tr' = tr @ [(Flush_view_of_file (m_base this + off)
                            (if n = 0 then m_size this - off else n), r)]) \<and>
         0 < (if n = 0 then m_size this - off else n) \<and>
         off + (if n = 0 then m_size this - off else n) \<le> m_size this"
  using assms
  by (auto simp: win_flush_def win_sys_def Let_def word_greater_zero_iff not_le not_less
      split: if_splits prod.splits)

text \<open>
  Move assignment exchanges the two states and makes no system call. When both
  instances are destroyed afterwards, the release calls are those for what the source
  owned followed by those for what the target owned, each made once.
\<close>

lemma posix_move_assign_then_destroy:
  "posix_move_assign a b = (b, a) \<and>
   posix_releases (snd (posix_destroy os (snd (posix_move_assign a b))
      (snd (posix_destroy os (fst (posix_move_assign a b)) [])))) = posix_owned b @ posix_owned a"
  by (simp add: posix_move_assign_def posix_swap_eq posix_destroy_releases posix_releases_Nil)

lemma win_move_assign_then_destroy:
  "win_move_assign c d = (d, c) \<and>
   win_releases (snd (win_destroy os (snd (win_move_assign c d))
      (snd (win_destroy os (fst (win_move_assign c d)) [])))) = win_owned d @ win_owned c"
  by (simp add: win_move_assign_def win_swap_eq win_destroy_releases win_releases_Nil)

section \<open>Size inferred from the backing object\<close>

text \<open>
  Claim C1: with \<open>size == 0\<close> and an offset inside the object, the size stored is the
  object's length minus the offset (300 for a 500-byte object mapped at offset 200), and
  an offset at or beyond the length fails with the size error.

  The POSIX constructor does neither. It asks \<open>lseek(fd, offset, SEEK_END)\<close>, which
  answers the length plus the offset; the test \<open>offset >= filesize\<close> and the
  subtraction \<open>filesize -= offset\<close> that follow treat the answer as the length. For
  a 500-byte object the run at offset 200 stores the size 500 and asks \<open>mmap\<close> for
  700 bytes from file offset 0, and the run at offset 600 succeeds with size 500 too.
  (Lemma \<open>posix_size_zero_resolves_to_length\<close> has the same for every length and
  offset.) The Win32 constructor subtracts the offset from the length the system
  reports, but never compares the two: for the same object at offset 600 it returns
  normally with the size \<open>2^32 - 100\<close>, the difference cut to 32 bits.
\<close>

theorem size_zero_runs_store_wrong_size:
  "posix_construct (file_os 500 0x7f0000000000) 3 read_only 200 0 0 [] =
     (Inr (),
      \<lparr>m_base = 0x7f00000000C8, m_size = 500, m_offset = 200, m_extra_offset = 200\<rparr>,
      [(Lseek_end 3 200, 700), (Mmap 0 700 1 1 3 0, 0x7f0000000000)]) \<and>
   posix_construct (file_os 500 0x7f0000000000) 3 read_only 600 0 0 [] =
     (Inr (),
      \<lparr>m_base = 0x7f0000000258, m_size = 500, m_offset = 600, m_extra_offset = 600\<rparr>,
      [(Lseek_end 3 600, 1100), (Mmap 0 1100 1 1 3 0, 0x7f0000000000)]) \<and>
   win_construct (win_file_os 500 0x20000) \<lparr>handle = 0x10, is_shm = False\<rparr>
       read_only 600 0 0 [] =
     (Inr (),
      \<lparr>m_base = 0x20258, m_size = 0xFFFFFF9C, m_offset = 600, m_extra_offset = 600,
        m_file_mapping_hnd = - 1\<rparr>,
      [(Get_file_size 0x10, (True, 500)), (Create_file_mapping 0x10 2, (True, 0x44)),
       (Map_view_of_file_ex 0x44 4 0 0 500 0, (True, 0x20000)),
       (Close_handle 0x44, (True, 0))])"
  by (simp add: posix_construct_def posix_resolve_size_def posix_sys_def file_os_def
      posix_lseek_end_def posix_default_def posix_prot_flags_def posix_get_page_size_def
      MAP_FAILED_def PROT_READ_def MAP_SHARED_def word_sle_eq
      win_construct_def win_file_stage_def win_sys_def win_file_os_def
      win_default_def win_access_def Let_def sdiv64_def signed_divide_int_def
      word_sless_alt sint_size_max_32)

section \<open>Move assignment\<close>

text \<open>
  Claim C2: after the move assignment \<open>a = move(b)\<close> the instance \<open>a\<close> holds
  the state \<open>b\<close> held, \<open>b\<close> is unmapped, and no mapping is unmapped twice when
  both are destroyed afterwards.

  The header documents move assignment as: if \<open>*this\<close> owns a mapped region, it
  will be destroyed, and \<open>*this\<close> takes ownership of the region of \<open>other\<close>. The
  code of \<open>operator=\<close> is \<open>this->swap(other)\<close> alone: the region \<open>*this\<close>
  owned is not destroyed but handed to \<open>other\<close>. The run below assigns to the
  mapped instance \<open>region_a\<close> from the mapped instance \<open>region_b\<close>: afterwards
  the source holds the mapping at \<open>0x7f0000000000\<close> that the target had, so it is
  not unmapped, and that mapping is released only by the destructor of the source. The
  move constructor, which swaps with a freshly initialised instance, does leave its
  source in the default state. The Win32 code is the same: assigned to from a default
  instance, the mapped \<open>region_w\<close> moves into the source.
  (The first and last parts of the claim hold: lemmas
  \<open>posix_move_assign_then_destroy\<close> and \<open>win_move_assign_then_destroy\<close>.)
\<close>

theorem move_assign_source_stays_mapped:
  "posix_move_assign region_a region_b = (region_b, region_a) \<and>
   m_base (snd (posix_move_assign region_a region_b)) = 0x7f0000000000 \<and>
   m_base (snd (posix_move_assign region_a region_b)) \<noteq> MAP_FAILED \<and>
   posix_releases (snd (posix_destroy (file_os 4096 0)
      (snd (posix_move_assign region_a region_b)) [])) = [Munmap 0x7f0000000000 100] \<and>
   posix_move_construct region_b = (region_b, posix_default) \<and>
   win_move_assign region_w (win_default (win_file_os 4096 0x20000)) =
     (win_default (win_file_os 4096 0x20000), region_w) \<and>
   m_base (snd (win_move_assign region_w (win_default (win_file_os 4096 0x20000)))) = 0x2000A"
  by (simp add: posix_move_assign_def posix_move_construct_def win_move_assign_def
      posix_swap_eq win_swap_eq posix_destroy_releases posix_releases_Nil posix_owned_def)
     (simp add: region_a_eq region_w_eq MAP_FAILED_def)

section \<open>Flush that does not reach the system\<close>

text \<open>
  Claim C3, as the code has it: \<open>flush\<close> on an unmapped instance returns
  \<open>false\<close>, the failure indicator, and makes no system call. For the POSIX
  default-constructed instance this is the bounds test (its size is 0); the Win32
  code tests \<open>m_base == 0\<close> first. \<open>flush\<close> on any instance returns \<open>false\<close>
  without a system call when \<open>mapping_offset >= m_size\<close>, or when
  \<open>mapping_offset + numbytes\<close> exceeds \<open>m_size\<close> and is representable in
  \<open>std::size_t\<close>. \<open>flush\<close> returns a boolean in every case; it has no error value.
\<close>

theorem flush_refuses_without_system_call:
  "posix_flush os posix_default off n tr = (False, tr) \<and>
   (m_size this \<le> off \<or> (unat off + unat n < 2 ^ 64 \<and> unat (m_size this) < unat off + unat n)
      \<longrightarrow> posix_flush os this off n tr = (False, tr)) \<and>
   (m_base wthis = 0 \<longrightarrow> win_flush wos wthis woff wn wtr = (False, wtr)) \<and>
   (m_size wthis \<le> woff \<or> (unat woff + unat wn < 2 ^ 32 \<and> unat (m_size wthis) < unat woff + unat wn)
      \<longrightarrow> win_flush wos wthis woff wn wtr = (False, wtr))"
proof -
  have "posix_flush os posix_default off n tr = (False, tr)"
    by (simp add: posix_flush_def posix_default_def)
  moreover have "m_base wthis = 0 \<Longrightarrow> win_flush wos wthis woff wn wtr = (False, wtr)"
    by (simp add: win_flush_def)
  ultimately show ?thesis
    using posix_flush_out_of_bounds [of this off n os tr]
      win_flush_out_of_bounds [of wthis woff wn wos wtr]
    by blast
qed

text \<open>
  The theorem at the mapped instances of 100 bytes, flushing 200 bytes from offset 10,
  and at the Win32 default instance.
\<close>

theorem flush_refuses_without_system_call_witness:
  "unat (10 :: 64 word) + unat (200 :: 64 word) < 2 ^ 64 \<and>
   unat (m_size region_a) < unat (10 :: 64 word) + unat (200 :: 64 word) \<and>
   posix_flush (file_os 4096 0) region_a 10 200 [] = (False, []) \<and>
   m_base (win_default (win_file_os 4096 0x20000)) = 0 \<and>
   win_flush (win_file_os 4096 0x20000) (win_default (win_file_os 4096 0x20000)) 0 0 [] = (False, []) \<and>
   unat (10 :: 32 word) + unat (200 :: 32 word) < 2 ^ 32 \<and>
   unat (m_size region_w) < unat (10 :: 32 word) + unat (200 :: 32 word) \<and>
   win_flush (win_file_os 4096 0x20000) region_w 10 200 [] = (False, [])"
proof -
  have p: "unat (10 :: 64 word) + unat (200 :: 64 word) < 2 ^ 64 \<and>
           unat (m_size region_a) < unat (10 :: 64 word) + unat (200 :: 64 word)"
    by (simp add: region_a_eq)
  have d: "m_base (win_default (win_file_os 4096 0x20000)) = 0"
    by (simp add: win_default_def)
  have w: "unat (10 :: 32 word) + unat (200 :: 32 word) < 2 ^ 32 \<and>
           unat (m_size region_w) < unat (10 :: 32 word) + unat (200 :: 32 word)"
    by (simp add: region_w_eq)
  from p flush_refuses_without_system_call
         [of "file_os 4096 0" 10 200 "[]" region_a "win_default (win_file_os 4096 0x20000)"
             "win_file_os 4096 0x20000" 0 0 "[]"]
  have 1: "posix_flush (file_os 4096 0) region_a 10 200 [] = (False, [])" by blast
  from d flush_refuses_without_system_call
         [of "file_os 4096 0" 10 200 "[]" region_a "win_default (win_file_os 4096 0x20000)"
             "win_file_os 4096 0x20000" 0 0 "[]"]
  have 2: "win_flush (win_file_os 4096 0x20000) (win_default (win_file_os 4096 0x20000)) 0 0 [] =
             (False, [])" by blast
  from w flush_refuses_without_system_call
         [of "file_os 4096 0" 10 200 "[]" region_a region_w
             "win_file_os 4096 0x20000" 10 200 "[]"]
  have 3: "win_flush (win_file_os 4096 0x20000) region_w 10 200 [] = (False, [])" by blast
  show ?thesis using p d w 1 2 3 by blast
qed

text \<open>
  The claim as stated fails at the unmapped instance: the value returned is the failure
  indicator, not the success one.
\<close>

theorem flush_unmapped_reports_failure:
  "fst (posix_flush (file_os 4096 0x7f0000000000) posix_default 0 0 []) = False \<and>
   fst (win_flush (win_file_os 4096 0x20000) (win_default (win_file_os 4096 0x20000)) 0 0 []) = False"
  by (simp add: posix_flush_def posix_default_def win_flush_def win_default_def)

section \<open>An access mode outside the three\<close>

text \<open>
  Claim C4, as the code has it: a constructor called with a mode that is none of
  \<open>read_only\<close>, \<open>read_write\<close>, \<open>copy_on_write\<close> never maps anything and throws.
  The Win32 constructor throws the mode error before any system call. The POSIX
  constructor does so when \<open>size\<close> is not 0; with \<open>size == 0\<close> its size query
  comes before the switch on the mode, so it calls \<open>lseek\<close> first and throws the
  mode error only if that query succeeds with an answer above the offset (otherwise the
  system error or the size error of the query); \<open>lseek\<close> is then the only call made.
\<close>

theorem invalid_mode_never_maps:
  "(sz \<noteq> 0 \<longrightarrow>
      posix_construct os fd invalid_mode offset sz address tr = (Inl mode_error, posix_default, tr)) \<and>
   (sz = 0 \<longrightarrow>
      posix_construct os fd invalid_mode offset sz address tr =
        (if sys_ret os tr (Lseek_end fd offset) = - 1
         then Inl (system_error_code os
                (tr @ [(Lseek_end fd offset, sys_ret os tr (Lseek_end fd offset))]))
         else if sys_ret os tr (Lseek_end fd offset) \<le>s offset then Inl size_error_code
         else Inl mode_error,
         posix_default, tr @ [(Lseek_end fd offset, sys_ret os tr (Lseek_end fd offset))])) \<and>
   win_construct wos mhandle invalid_mode woffset wsz waddress wtr =
     (Inl mode_error, win_default wos, wtr)"
proof -
  have sized: "posix_construct os fd invalid_mode offset sz address tr =
      (Inl mode_error, posix_default, tr)" if "sz \<noteq> 0"
    using that by (simp add: posix_construct_def posix_resolve_size_def posix_prot_flags_def)
  have unsized: "posix_construct os fd invalid_mode offset 0 address tr =
     (if sys_ret os tr (Lseek_end fd offset) = - 1
      then Inl (system_error_code os
             (tr @ [(Lseek_end fd offset, sys_ret os tr (Lseek_end fd offset))]))
      else if sys_ret os tr (Lseek_end fd offset) \<le>s offset then Inl size_error_code
      else Inl mode_error,
      posix_default, tr @ [(Lseek_end fd offset, sys_ret os tr (Lseek_end fd offset))])"
    by (simp add: posix_construct_def posix_resolve_size_def posix_prot_flags_def posix_sys_def
        Let_def)
  have win: "win_construct wos mhandle invalid_mode woffset wsz waddress wtr =
     (Inl mode_error, win_default wos, wtr)"
    by (simp add: win_construct_def win_access_def)
  show ?thesis using sized unsized win by blast
qed

text \<open>
  The theorem at a 500-byte object and offset 10: with size 100 no call is made, with
  size 0 the one call is \<open>lseek\<close>.
\<close>

theorem invalid_mode_never_maps_witness:
  "(100 :: 64 word) \<noteq> 0 \<and>
   posix_construct (file_os 500 0x7f0000000000) 3 invalid_mode 10 100 0 [] =
      (Inl mode_error, posix_default, []) \<and>
   fst (posix_construct (file_os 500 0x7f0000000000) 3 invalid_mode 10 0 0 []) = Inl mode_error \<and>
   snd (snd (posix_construct (file_os 500 0x7f0000000000) 3 invalid_mode 10 0 0 [])) =
      [(Lseek_end 3 10, 510)]"
proof -
  have s: "(100 :: 64 word) \<noteq> 0" by simp
  have z: "(0 :: 64 word) = 0" by simp
  have l: "sys_ret (file_os 500 0x7f0000000000) [] (Lseek_end 3 10) = 510"
    by (simp add: file_os_def posix_lseek_end_def)
  from invalid_mode_never_maps [of 100 "file_os 500 0x7f0000000000" 3 10 0 "[]"] s
  have a: "posix_construct (file_os 500 0x7f0000000000) 3 invalid_mode 10 100 0 [] =
      (Inl mode_error, posix_default, [])" by blast
  from invalid_mode_never_maps [of 0 "file_os 500 0x7f0000000000" 3 10 0 "[]"] z
  have b: "posix_construct (file_os 500 0x7f0000000000) 3 invalid_mode 10 0 0 [] =
        (if sys_ret (file_os 500 0x7f0000000000) [] (Lseek_end 3 10) = - 1
         then Inl (system_error_code (file_os 500 0x7f0000000000)
                ([] @ [(Lseek_end 3 10, sys_ret (file_os 500 0x7f0000000000) [] (Lseek_end 3 10))]))
         else if sys_ret (file_os 500 0x7f0000000000) [] (Lseek_end 3 10) \<le>s 10
         then Inl size_error_code
         else Inl mode_error,
         posix_default,
         [] @ [(Lseek_end 3 10, sys_ret (file_os 500 0x7f0000000000) [] (Lseek_end 3 10))])"
    by blast
  show ?thesis using a b by (simp add: l word_sle_eq)
qed

text \<open>
  The claim as stated fails on POSIX with \<open>size == 0\<close>: the size query is issued
  before the mode error, and for an empty object the constructor throws the size error
  instead.
\<close>

theorem invalid_mode_queries_size_first:
  "posix_construct (file_os 500 0x7f0000000000) 3 invalid_mode 0 0 0 [] =
     (Inl mode_error, posix_default, [(Lseek_end 3 0, 500)]) \<and>
   posix_construct (file_os 0 0x7f0000000000) 3 invalid_mode 0 0 0 [] =
     (Inl size_error_code, posix_default, [(Lseek_end 3 0, 0)])"
  by (simp add: posix_construct_def posix_resolve_size_def posix_sys_def file_os_def
      posix_lseek_end_def posix_prot_flags_def word_sle_eq)

section \<open>A constructor that throws holds nothing\<close>

text \<open>
  Claim C5: when the constructor throws, at whichever step, everything it acquired
  from the system (a file-mapping handle, a duplicated handle, a mapping or view) has
  been given back by the calls it made before throwing: the events it appended to the
  trace leave nothing outstanding. The instance is then unmapped, with the sentinel in
  \<open>m_base\<close>; the constructor either returns normally or ends this way. The system
  is assumed to behave as \<open>posix_os_ok\<close> and \<open>win_os_ok\<close> say.
\<close>

theorem construction_failure_releases_everything:
  "(posix_os_ok os \<and> posix_construct os fd mode offset sz address tr = (Inl e, this, tr') \<longrightarrow>
      tr' = tr @ issued tr tr' \<and>
      posix_outstanding (issued tr tr') = [] \<and> m_base this = MAP_FAILED) \<and>
   (win_os_ok wos \<and> win_construct wos mh wmode woffset wsz waddress wtr = (Inl we, wthis, wtr') \<longrightarrow>
      wtr' = wtr @ issued wtr wtr' \<and>
      win_outstanding (issued wtr wtr') = [] \<and> m_base wthis = 0)"
proof -
  have p: "tr' = tr @ issued tr tr'"
    if "posix_construct os fd mode offset sz address tr = (Inl e, this, tr')"
    using posix_construct_extends [of os fd mode offset sz address tr] that
    by (intro issued_of_extension) simp
  have w: "wtr' = wtr @ issued wtr wtr'"
    if "win_construct wos mh wmode woffset wsz waddress wtr = (Inl we, wthis, wtr')"
    using win_construct_extends [of wos mh wmode woffset wsz waddress wtr] that
    by (intro issued_of_extension) simp
  show ?thesis
    using p w posix_construct_failure [of os fd mode offset sz address tr e this tr']
      win_construct_failure [of wos mh wmode woffset wsz waddress wtr we wthis wtr']
    by blast
qed

text \<open>
  The theorem at two runs that fail after acquiring something: a POSIX run whose
  address hint \<open>0x1000\<close> the system does not honour (the mapping is flushed and
  unmapped before the throw), and a Win32 run on shared memory whose view cannot be
  mapped (the duplicated handle is closed before the throw).
\<close>

theorem construction_failure_releases_everything_witness:
  "posix_os_ok (file_os 4096 0x7f0000000000) \<and>
   posix_construct (file_os 4096 0x7f0000000000) 3 read_write 10 100 0x1000 [] =
     (Inl (system_error 0),
      \<lparr>m_base = MAP_FAILED, m_size = 100, m_offset = 10, m_extra_offset = 10\<rparr>,
      [(Mmap 0xFF6 110 3 1 3 0, 0x7f0000000000), (Msync 0x7f000000000A 100, 0),
       (Munmap 0x7f0000000000 110, 0)]) \<and>
   posix_outstanding (issued []
      [(Mmap 0xFF6 110 3 1 3 0, 0x7f0000000000), (Msync 0x7f000000000A 100, 0),
       (Munmap 0x7f0000000000 110, 0)]) = [] \<and>
   win_os_ok (win_file_os 4096 0) \<and>
   win_construct (win_file_os 4096 0) \<lparr>handle = 0x10, is_shm = True\<rparr> read_write 10 100 0 [] =
     (Inl (system_error 0),
      \<lparr>m_base = 0, m_size = 100, m_offset = 10, m_extra_offset = 10, m_file_mapping_hnd = 0\<rparr>,
      [(Duplicate_current_process_handle 0x10, (True, 0x48)),
       (Map_view_of_file_ex 0x48 2 0 0 110 0, (True, 0)),
       (Close_handle 0x48, (True, 0))]) \<and>
   win_outstanding (issued []
      [(Duplicate_current_process_handle 0x10, (True, 0x48)),
       (Map_view_of_file_ex 0x48 2 0 0 110 0, (True, 0)),
       (Close_handle 0x48, (True, 0))]) = []"
proof -
  have po: "posix_os_ok (file_os 4096 0x7f0000000000)"
    by (simp add: posix_os_ok_def file_os_def)
  have pc: "posix_construct (file_os 4096 0x7f0000000000) 3 read_write 10 100 0x1000 [] =
     (Inl (system_error 0),
      \<lparr>m_base = MAP_FAILED, m_size = 100, m_offset = 10, m_extra_offset = 10\<rparr>,
      [(Mmap 0xFF6 110 3 1 3 0, 0x7f0000000000), (Msync 0x7f000000000A 100, 0),
       (Munmap 0x7f0000000000 110, 0)])"
    by (simp add: posix_construct_def posix_resolve_size_def posix_sys_def file_os_def
        posix_default_def posix_prot_flags_def posix_get_page_size_def posix_priv_close_def
        posix_flush_def system_error_code_def Let_def
        MAP_FAILED_def PROT_READ_def PROT_WRITE_def MAP_SHARED_def)
  have wo: "win_os_ok (win_file_os 4096 0)"
    by (simp add: win_os_ok_def win_file_os_def)
  have wc: "win_construct (win_file_os 4096 0) \<lparr>handle = 0x10, is_shm = True\<rparr>
              read_write 10 100 0 [] =
     (Inl (system_error 0),
      \<lparr>m_base = 0, m_size = 100, m_offset = 10, m_extra_offset = 10, m_file_mapping_hnd = 0\<rparr>,
      [(Duplicate_current_process_handle 0x10, (True, 0x48)),
       (Map_view_of_file_ex 0x48 2 0 0 110 0, (True, 0)),
       (Close_handle 0x48, (True, 0))])"
    by (simp add: win_construct_def win_file_stage_def win_sys_def win_file_os_def
        win_default_def win_access_def Let_def sdiv64_def win_priv_close_def
        get_last_error_def)
  from po pc construction_failure_releases_everything
    [of "file_os 4096 0x7f0000000000" 3 read_write 10 100 "0x1000" "[]" "system_error 0"
        "\<lparr>m_base = MAP_FAILED, m_size = 100, m_offset = 10, m_extra_offset = 10\<rparr>"
        "[(Mmap 0xFF6 110 3 1 3 0, 0x7f0000000000), (Msync 0x7f000000000A 100, 0),
          (Munmap 0x7f0000000000 110, 0)]"]
  have 1: "posix_outstanding (issued []
      [(Mmap 0xFF6 110 3 1 3 0, 0x7f0000000000), (Msync 0x7f000000000A 100, 0),
       (Munmap 0x7f0000000000 110, 0)]) = []"
    by blast
  from wo wc construction_failure_releases_everything
    [where wos = "win_file_os 4096 0" and mh = "\<lparr>handle = 0x10, is_shm = True\<rparr>"
       and wmode = read_write and woffset = 10 and wsz = 100 and waddress = 0 and wtr = "[]"
       and we = "system_error 0"
       and wthis = "\<lparr>m_base = 0, m_size = 100, m_offset = 10, m_extra_offset = 10,
                      m_file_mapping_hnd = 0\<rparr>"
       and wtr' = "[(Duplicate_current_process_handle 0x10, (True, 0x48)),
                   (Map_view_of_file_ex 0x48 2 0 0 110 0, (True, 0)),
                   (Close_handle 0x48, (True, 0))]"]
  have 2: "win_outstanding (issued []
      [(Duplicate_current_process_handle 0x10, (True, 0x48)),
       (Map_view_of_file_ex 0x48 2 0 0 110 0, (True, 0)),
       (Close_handle 0x48, (True, 0))]) = []"
    by blast
  show ?thesis using po pc wo wc 1 2 by blast
qed

section \<open>The mapping underneath a mapped instance\<close>




section \<open>The extra offset\<close>

text \<open>
  Claim C7, as the code has it: after a constructor returns normally for a requested
  offset that is not negative, the stored extra offset is the offset modulo the page
  granularity (\<open>sysconf(_SC_PAGESIZE)\<close> on POSIX, \<open>dwAllocationGranularity\<close> on
  Win32), so it lies from 0 up to but not including the granularity and depends on the
  offset and the granularity only.
\<close>

theorem extra_offset_is_offset_mod_granularity:
  "(0 \<le> sint offset \<and>
    posix_construct os fd mode offset sz address tr = (Inr (), this, tr') \<longrightarrow>
      0 \<le> sint (m_extra_offset this) \<and>
      sint (m_extra_offset this) < uint (posix_get_page_size os) \<and>
      sint (m_extra_offset this) = sint offset mod uint (posix_get_page_size os)) \<and>
   (0 \<le> sint woffset \<and>
    win_construct wos mh wmode woffset wsz waddress wtr = (Inr (), wthis, wtr') \<longrightarrow>
      0 \<le> sint (m_extra_offset wthis) \<and>
      sint (m_extra_offset wthis) < uint (allocation_granularity wos) \<and>
      sint (m_extra_offset wthis) = sint woffset mod uint (allocation_granularity wos))"
proof -
  have p: "0 \<le> sint (m_extra_offset this) \<and>
      sint (m_extra_offset this) < uint (posix_get_page_size os) \<and>
      sint (m_extra_offset this) = sint offset mod uint (posix_get_page_size os)"
    if nn: "0 \<le> sint offset"
      and c: "posix_construct os fd mode offset sz address tr = (Inr (), this, tr')"
  proof -
    from posix_construct_extra [OF c]
    have ps: "sc_pagesize os \<noteq> 0" and e: "m_extra_offset this = offset mod sc_pagesize os"
      by simp_all
    from posix_extra_nonneg [OF nn ps] show ?thesis
      by (simp add: e posix_get_page_size_def)
  qed
  have w: "0 \<le> sint (m_extra_offset wthis) \<and>
      sint (m_extra_offset wthis) < uint (allocation_granularity wos) \<and>
      sint (m_extra_offset wthis) = sint woffset mod uint (allocation_granularity wos)"
    if nn: "0 \<le> sint woffset"
      and c: "win_construct wos mh wmode woffset wsz waddress wtr = (Inr (), wthis, wtr')"
  proof -
    from win_construct_success [OF c]
    have g: "allocation_granularity wos \<noteq> 0"
      and e: "m_extra_offset wthis =
        woffset - sdiv64 woffset (ucast (allocation_granularity wos)) *
                    ucast (allocation_granularity wos)"
      by simp_all
    from win_extra_nonneg [OF nn g] show ?thesis
      by (simp add: e)
  qed
  show ?thesis using p w by blast
qed

text \<open>
  The theorem at offset 4106 of a POSIX object (page size 4096) and at offset 65546 of a
  Win32 object (granularity 65536): the extra offset is 10 in both.
\<close>

theorem extra_offset_is_offset_mod_granularity_witness:
  "0 \<le> sint (4106 :: 64 word) \<and>
   posix_construct (file_os 8192 0x7f0000000000) 3 read_only 4106 100 0 [] =
     (Inr (), \<lparr>m_base = 0x7f000000000A, m_size = 100, m_offset = 4106, m_extra_offset = 10\<rparr>,
      [(Mmap 0 110 1 1 3 4096, 0x7f0000000000)]) \<and>
   sint (10 :: 64 word) = sint (4106 :: 64 word) mod uint (posix_get_page_size (file_os 8192 0x7f0000000000)) \<and>
   0 \<le> sint (65546 :: 64 word) \<and>
   win_construct (win_file_os 131072 0x20000) \<lparr>handle = 0x10, is_shm = False\<rparr>
       read_only 65546 100 0 [] =
     (Inr (),
      \<lparr>m_base = 0x2000A, m_size = 100, m_offset = 65546, m_extra_offset = 10,
        m_file_mapping_hnd = - 1\<rparr>,
      [(Create_file_mapping 0x10 2, (True, 0x44)),
       (Map_view_of_file_ex 0x44 4 0 65536 110 0, (True, 0x20000)),
       (Close_handle 0x44, (True, 0))]) \<and>
   sint (10 :: 64 word) = sint (65546 :: 64 word) mod uint (allocation_granularity (win_file_os 131072 0x20000))"
proof -
  let ?R = "\<lparr>m_base = 0x7f000000000A, m_size = 100, m_offset = 4106, m_extra_offset = 10\<rparr>
            :: posix_region"
  let ?V = "\<lparr>m_base = 0x2000A, m_size = 100, m_offset = 65546, m_extra_offset = 10,
              m_file_mapping_hnd = - 1\<rparr> :: win_region"
  have pn: "0 \<le> sint (4106 :: 64 word)" by simp
  have pc: "posix_construct (file_os 8192 0x7f0000000000) 3 read_only 4106 100 0 [] =
     (Inr (), ?R, [(Mmap 0 110 1 1 3 4096, 0x7f0000000000)])"
    by (simp add: posix_construct_def posix_resolve_size_def posix_sys_def file_os_def
        posix_default_def posix_prot_flags_def posix_get_page_size_def
        MAP_FAILED_def PROT_READ_def MAP_SHARED_def)
  have wn: "0 \<le> sint (65546 :: 64 word)" by simp
  have wc: "win_construct (win_file_os 131072 0x20000) \<lparr>handle = 0x10, is_shm = False\<rparr>
       read_only 65546 100 0 [] =
     (Inr (), ?V,
      [(Create_file_mapping 0x10 2, (True, 0x44)),
       (Map_view_of_file_ex 0x44 4 0 65536 110 0, (True, 0x20000)),
       (Close_handle 0x44, (True, 0))])"
    by (simp add: win_construct_def win_file_stage_def win_sys_def win_file_os_def
        win_default_def win_access_def Let_def sdiv64_def signed_divide_int_def)
  from pn pc extra_offset_is_offset_mod_granularity
    [where os = "file_os 8192 0x7f0000000000" and fd = 3 and mode = read_only and offset = 4106
       and sz = 100 and address = 0 and tr = "[]" and this = ?R
       and tr' = "[(Mmap 0 110 1 1 3 4096, 0x7f0000000000)]"]
  have p: "sint (m_extra_offset ?R) =
      sint (4106 :: 64 word) mod uint (posix_get_page_size (file_os 8192 0x7f0000000000))"
    by blast
  from wn wc extra_offset_is_offset_mod_granularity
    [where wos = "win_file_os 131072 0x20000" and mh = "\<lparr>handle = 0x10, is_shm = False\<rparr>"
       and wmode = read_only and woffset = 65546 and wsz = 100 and waddress = 0 and wtr = "[]"
       and wthis = ?V
       and wtr' = "[(Create_file_mapping 0x10 2, (True, 0x44)),
                    (Map_view_of_file_ex 0x44 4 0 65536 110 0, (True, 0x20000)),
                    (Close_handle 0x44, (True, 0))]"]
  have w: "sint (m_extra_offset ?V) =
      sint (65546 :: 64 word) mod uint (allocation_granularity (win_file_os 131072 0x20000))"
    by blast
  have p': "sint (10 :: 64 word) =
      sint (4106 :: 64 word) mod uint (posix_get_page_size (file_os 8192 0x7f0000000000))"
    using p by (simp only: mapped_region.select_convs)
  have w': "sint (10 :: 64 word) =
      sint (65546 :: 64 word) mod uint (allocation_granularity (win_file_os 131072 0x20000))"
    using w by (simp only: mapped_region.select_convs)
  show ?thesis using pn pc wn wc p' w' by blast
qed

text \<open>
  The claim as stated, for every requested offset, fails at a negative one. The Win32
  constructor divides with the signed 64-bit division, which truncates towards zero: for
  offset \<open>-1\<close> the quotient is 0 and the extra offset is \<open>-1\<close>; the view is mapped
  from file offset 0 with length 99 and the constructor returns normally.
\<close>

theorem negative_offset_gives_negative_extra_offset:
  "win_construct (win_file_os 4096 0x20000) \<lparr>handle = 0x10, is_shm = False\<rparr>
       read_only (- 1) 100 0 [] =
     (Inr (),
      \<lparr>m_base = 0x1FFFF, m_size = 100, m_offset = - 1, m_extra_offset = - 1,
        m_file_mapping_hnd = - 1\<rparr>,
      [(Create_file_mapping 0x10 2, (True, 0x44)),
       (Map_view_of_file_ex 0x44 4 0 0 99 0, (True, 0x20000)),
       (Close_handle 0x44, (True, 0))]) \<and>
   sint (- 1 :: 64 word) < 0"
  by (simp add: win_construct_def win_file_stage_def win_sys_def win_file_os_def
      win_default_def win_access_def Let_def sdiv64_def signed_divide_int_def
      ucast_minus_one_64_32)

section \<open>The accessors\<close>

text \<open>
  Claim C8: after a constructor returns normally for an offset and a size (a size that
  is not 0, the value that asks for the size to be inferred), \<open>get_offset\<close> returns
  that offset and \<open>get_size\<close> that size, whether or not the offset is a multiple of
  the page granularity. The three accessors only read a member; on an unmapped,
  default-constructed instance they return the sentinel address, size 0 and offset 0.
\<close>

theorem accessors_return_requested_values:
  "(posix_construct os fd mode offset sz address tr = (Inr (), this, tr') \<longrightarrow>
      posix_get_offset this = offset \<and> (sz \<noteq> 0 \<longrightarrow> posix_get_size this = sz)) \<and>
   (win_construct wos mhandle wmode woffset wsz waddress wtr = (Inr (), wthis, wtr') \<longrightarrow>
      win_get_offset wthis = woffset \<and> (wsz \<noteq> 0 \<longrightarrow> win_get_size wthis = wsz)) \<and>
   posix_get_address posix_default = MAP_FAILED \<and> posix_get_size posix_default = 0 \<and>
   posix_get_offset posix_default = 0 \<and>
   win_get_address (win_default wos) = 0 \<and> win_get_size (win_default wos) = 0 \<and>
   win_get_offset (win_default wos) = 0"
proof -
  have p: "posix_get_offset this = offset \<and> (sz \<noteq> 0 \<longrightarrow> posix_get_size this = sz)"
    if "posix_construct os fd mode offset sz address tr = (Inr (), this, tr')"
    using posix_construct_extra [OF that]
    by (simp add: posix_get_offset_def posix_get_size_def)
  have w: "win_get_offset wthis = woffset \<and> (wsz \<noteq> 0 \<longrightarrow> win_get_size wthis = wsz)"
    if "win_construct wos mhandle wmode woffset wsz waddress wtr = (Inr (), wthis, wtr')"
    using win_construct_success [OF that]
    by (simp add: win_get_offset_def win_get_size_def)
  have d: "posix_get_address posix_default = MAP_FAILED \<and> posix_get_size posix_default = 0 \<and>
     posix_get_offset posix_default = 0 \<and>
     win_get_address (win_default wos) = 0 \<and> win_get_size (win_default wos) = 0 \<and>
     win_get_offset (win_default wos) = 0"
    by (simp add: posix_get_address_def posix_get_size_def posix_get_offset_def
        posix_default_def win_get_address_def win_get_size_def win_get_offset_def
        win_default_def)
  show ?thesis using p w d by blast
qed

text \<open>
  The theorem at a 4096-byte object mapped read-write at offset 10, which is not
  aligned, with size 100, on both systems.
\<close>

theorem accessors_return_requested_values_witness:
  "(100 :: 64 word) \<noteq> 0 \<and>
   posix_construct (file_os 4096 0x7f0000000000) 3 read_write 10 100 0 [] =
     (Inr (), \<lparr>m_base = 0x7f000000000A, m_size = 100, m_offset = 10, m_extra_offset = 10\<rparr>,
      [(Mmap 0 110 3 1 3 0, 0x7f0000000000)]) \<and>
   posix_get_offset
     \<lparr>m_base = 0x7f000000000A, m_size = 100, m_offset = 10, m_extra_offset = 10\<rparr> = 10 \<and>
   posix_get_size
     \<lparr>m_base = 0x7f000000000A, m_size = 100, m_offset = 10, m_extra_offset = 10\<rparr> = 100 \<and>
   (100 :: 32 word) \<noteq> 0 \<and>
   win_construct (win_file_os 4096 0x20000) \<lparr>handle = 0x10, is_shm = True\<rparr>
       read_write 10 100 0 [] =
     (Inr (), region_w,
      [(Duplicate_current_process_handle 0x10, (True, 0x48)),
       (Map_view_of_file_ex 0x48 2 0 0 110 0, (True, 0x20000))]) \<and>
   win_get_offset region_w = 10 \<and> win_get_size region_w = 100"
proof -
  let ?R = "\<lparr>m_base = 0x7f000000000A, m_size = 100, m_offset = 10, m_extra_offset = 10\<rparr>
            :: posix_region"
  have pn: "(100 :: 64 word) \<noteq> 0" by simp
  have wn: "(100 :: 32 word) \<noteq> 0" by simp
  have pc: "posix_construct (file_os 4096 0x7f0000000000) 3 read_write 10 100 0 [] =
     (Inr (), ?R, [(Mmap 0 110 3 1 3 0, 0x7f0000000000)])"
    by (simp add: posix_construct_def posix_resolve_size_def posix_sys_def file_os_def
        posix_default_def posix_prot_flags_def posix_get_page_size_def
        MAP_FAILED_def PROT_READ_def PROT_WRITE_def MAP_SHARED_def)
  have wc: "win_construct (win_file_os 4096 0x20000) \<lparr>handle = 0x10, is_shm = True\<rparr>
       read_write 10 100 0 [] =
     (Inr (), region_w,
      [(Duplicate_current_process_handle 0x10, (True, 0x48)),
       (Map_view_of_file_ex 0x48 2 0 0 110 0, (True, 0x20000))])"
    by (simp add: region_w_eq)
       (simp add: win_construct_def win_file_stage_def win_sys_def win_file_os_def
        win_default_def win_access_def Let_def sdiv64_def)
  from pn pc accessors_return_requested_values
    [where sz = 100 and os = "file_os 4096 0x7f0000000000" and fd = 3 and mode = read_write
       and offset = 10 and address = 0 and tr = "[]" and this = ?R
       and tr' = "[(Mmap 0 110 3 1 3 0, 0x7f0000000000)]"]
  have p: "posix_get_offset ?R = 10 \<and> posix_get_size ?R = 100" by blast
  from wn wc accessors_return_requested_values
    [where wsz = 100 and wos = "win_file_os 4096 0x20000"
       and mhandle = "\<lparr>handle = 0x10, is_shm = True\<rparr>" and wmode = read_write
       and woffset = 10 and waddress = 0 and wtr = "[]" and wthis = region_w
       and wtr' = "[(Duplicate_current_process_handle 0x10, (True, 0x48)),
                    (Map_view_of_file_ex 0x48 2 0 0 110 0, (True, 0x20000))]"]
  have w: "win_get_offset region_w = 10 \<and> win_get_size region_w = 100" by blast
  show ?thesis using pn wn pc wc p w by blast
qed

section \<open>Teardown\<close>

text \<open>
  Claim C9: closing an unmapped instance does nothing; closing a mapped one flushes
  the whole region, then unmaps it, then (Win32) closes the duplicated handle, and
  nothing the system reports is passed on.

  The Win32 code does not flush a mapped instance whose size is 0, the state the
  constructor leaves for shared memory mapped with \<open>size == 0\<close>. \<open>priv_close\<close>
  calls \<open>flush()\<close>, whose bounds test \<open>mapping_offset >= m_size\<close> is \<open>0 >= 0\<close>
  and returns \<open>false\<close> before the branch \<open>if(m_size == 0) numbytes = 0\<close> that
  was written for this state. The run below constructs such an instance and destroys
  it: the trace of the destructor has the unmap and the close, and no flush. For
  comparison, the destructor of the instance mapped with size 100 does flush first.
  (For instances whose size is not 0, and on POSIX, the code does what the claim says:
  lemmas \<open>posix_destroy_unmapped\<close>, \<open>posix_destroy_mapped\<close>,
  \<open>win_destroy_unmapped\<close> and \<open>win_destroy_mapped\<close>.)
\<close>

theorem win_close_skips_flush_when_size_unknown:
  "win_construct (win_file_os 4096 0x20000) \<lparr>handle = 0x10, is_shm = True\<rparr> read_write 0 0 0 [] =
     (Inr (),
      \<lparr>m_base = 0x20000, m_size = 0, m_offset = 0, m_extra_offset = 0,
        m_file_mapping_hnd = 0x48\<rparr>,
      [(Duplicate_current_process_handle 0x10, (True, 0x48)),
       (Map_view_of_file_ex 0x48 2 0 0 0 0, (True, 0x20000))]) \<and>
   win_destroy (win_file_os 4096 0x20000)
      \<lparr>m_base = 0x20000, m_size = 0, m_offset = 0, m_extra_offset = 0,
        m_file_mapping_hnd = 0x48\<rparr> [] =
     (\<lparr>m_base = 0, m_size = 0, m_offset = 0, m_extra_offset = 0, m_file_mapping_hnd = 0\<rparr>,
      [(Unmap_view_of_file 0x20000, (True, 0)), (Close_handle 0x48, (True, 0))]) \<and>
   win_destroy (win_file_os 4096 0x20000) region_w [] =
     (\<lparr>m_base = 0, m_size = 100, m_offset = 10, m_extra_offset = 10, m_file_mapping_hnd = 0\<rparr>,
      [(Flush_view_of_file 0x2000A 100, (True, 0)), (Unmap_view_of_file 0x20000, (True, 0)),
       (Close_handle 0x48, (True, 0))])"
  by (simp add: region_w_eq)
     (simp add: win_construct_def win_file_stage_def win_sys_def win_file_os_def
      win_default_def win_access_def Let_def sdiv64_def win_destroy_def win_priv_close_def
      win_flush_def)

section \<open>The range handed to the system's flush\<close>

text \<open>
  Claim C10: whenever \<open>flush\<close> gets past its validation, the size is not 0, the
  offset is below it, and the byte count handed to the system is positive and ends
  within the size, so the range flushed lies inside the region; the Win32 branch for
  \<open>m_size == 0\<close> cannot be reached.

  The validation adds \<open>mapping_offset + numbytes\<close> in \<open>std::size_t\<close>, where the
  sum wraps around. On the mapped instance of 100 bytes, \<open>flush(10, 2^64 - 5)\<close> on
  POSIX computes the sum 5, passes the test and hands \<open>msync\<close> a length of
  \<open>2^64 - 5\<close> bytes from \<open>m_base + 10\<close>; Win32 does the same with
  \<open>flush(10, 2^32 - 5)\<close>. (The other parts of the claim hold: see
  \<open>posix_flush_reaches_system\<close> and \<open>win_flush_reaches_system\<close>.)
\<close>

theorem flush_length_escapes_region_by_wrap_around:
  "posix_flush (file_os 4096 0x7f0000000000) region_a 10 0xFFFFFFFFFFFFFFFB [] =
     (True, [(Msync 0x7f000000000A 0xFFFFFFFFFFFFFFFB, 0)]) \<and>
   m_size region_a = 100 \<and>
   unat (m_size region_a) < unat (10 :: 64 word) + unat (0xFFFFFFFFFFFFFFFB :: 64 word) \<and>
   win_flush (win_file_os 4096 0x20000) region_w 10 0xFFFFFFFB [] =
     (False, [(Flush_view_of_file 0x20014 0xFFFFFFFB, (True, 0))]) \<and>
   m_size region_w = 100 \<and>
   unat (m_size region_w) < unat (10 :: 32 word) + unat (0xFFFFFFFB :: 32 word)"
  by (simp add: region_a_eq region_w_eq posix_flush_def posix_sys_def file_os_def
      win_flush_def win_sys_def win_file_os_def)

end
